theory Spec2Isabelle
  imports Main "HOL-Library.Sublist" "HOL-Library.Word" "HOL-Library.Finite_Map"
    "HOL-Library.Char_ord" "HOL-Library.List_Lexorder"
begin

section \<open>Strings and formatting\<close>

text \<open>
  Go strings are byte strings; they are modelled as \<open>string\<close> (a list of 8-bit characters).
  \<open>strings.HasPrefix s p\<close> is \<open>prefix p s\<close>.  The two formatting verbs the
  program uses are \<open>%s\<close> (the string itself, written as concatenation) and \<open>%d\<close>.
\<close>

definition HasPrefix :: "string \<Rightarrow> string \<Rightarrow> bool" where
  "HasPrefix s p = prefix p s"

definition digit_char :: "nat \<Rightarrow> char" where
  "digit_char d = ''0123456789'' ! d"

fun nat_digits :: "nat \<Rightarrow> string" where
  "nat_digits n =
     (if n < 10 then [digit_char n] else nat_digits (n div 10) @ [digit_char (n mod 10)])"

declare nat_digits.simps [simp del]

definition Sprintf_d :: "int \<Rightarrow> string" where
  "Sprintf_d i = (if i < 0 then CHR ''-'' # nat_digits (nat (- i)) else nat_digits (nat i))"

section \<open>pkg/docker: mount mappings\<close>

record MountMapping =
  ContainerPath :: string
  HostPath :: string
  Type :: string
  Options :: string
  IsExternal :: bool
  ReadOnly :: bool

section \<open>pkg/checkpoint: options and argument builders\<close>

record CheckpointOptions =
  WorkDir :: string
  ImagesDir :: string
  LogFile :: string
  LogLevel :: int
  External :: "string list"
  ManageCgroups :: bool
  TcpEstablished :: bool
  FileLocks :: bool
  LeaveRunning :: bool
  Shell :: bool
  PreDump :: bool
  TrackMem :: bool

text \<open>\<open>BuildExternalMountMappings\<close> (criu.go): the fixed list, then one descriptor
  per mapping that passes the test, appended in the order of the loop.\<close>

definition standardMounts :: "string list" where
  "standardMounts =
     [''mnt[/proc/sys]'',
      ''mnt[/proc/sysrq-trigger]'',
      ''mnt[/proc/irq]'',
      ''mnt[/proc/bus]'',
      ''mnt[/sys/fs/cgroup]'',
      ''mnt[/sys]'',
      ''mnt[/dev]'',
      ''mnt[.dockerenv]'',
      ''mnt[/etc/hosts]'',
      ''mnt[/etc/hostname]'',
      ''mnt[/etc/resolv.conf]'']"

fun BuildExternalMountMappings_loop :: "MountMapping list \<Rightarrow> string list \<Rightarrow> string list" where
  "BuildExternalMountMappings_loop [] external = external"
| "BuildExternalMountMappings_loop (mapping # rest) external =
     (if IsExternal mapping \<and> HostPath mapping \<noteq> '''' \<and>
         \<not> HasPrefix (ContainerPath mapping) ''/proc'' \<and>
         \<not> HasPrefix (ContainerPath mapping) ''/sys'' \<and>
         \<not> HasPrefix (ContainerPath mapping) ''/dev''
      then BuildExternalMountMappings_loop rest
             (external @ [''mnt['' @ ContainerPath mapping @ '']''])
      else BuildExternalMountMappings_loop rest external)"

definition BuildExternalMountMappings :: "MountMapping list \<Rightarrow> string list" where
  "BuildExternalMountMappings mappings = BuildExternalMountMappings_loop mappings standardMounts"

text \<open>\<open>BuildExtMountMapArgs\<close> (criu.go).\<close>

fun BuildExtMountMapArgs_loop :: "MountMapping list \<Rightarrow> string list \<Rightarrow> string list" where
  "BuildExtMountMapArgs_loop [] args = args"
| "BuildExtMountMapArgs_loop (mapping # rest) args =
     (if IsExternal mapping \<and> HostPath mapping \<noteq> ''''
      then BuildExtMountMapArgs_loop rest
             (args @ [''auto:'' @ ContainerPath mapping @ '':'' @ HostPath mapping])
      else BuildExtMountMapArgs_loop rest args)"

definition BuildExtMountMapArgs :: "MountMapping list \<Rightarrow> string list" where
  "BuildExtMountMapArgs mappings = BuildExtMountMapArgs_loop mappings []"

text \<open>The argument vector that \<open>CheckpointProcessCmd\<close> (criu_cmd.go) hands to
  \<open>exec.Command("criu", args...)\<close>: the literal list, \<open>--leave-running\<close> when the option
  is set, and one \<open>--external\<close> pair per descriptor.\<close>

fun external_args :: "string list \<Rightarrow> string list \<Rightarrow> string list" where
  "external_args [] args = args"
| "external_args (ext # rest) args = external_args rest (args @ [''--external'', ext])"

definition CheckpointProcessCmd_args :: "int \<Rightarrow> CheckpointOptions \<Rightarrow> string list" where
  "CheckpointProcessCmd_args pid opts =
     (let args =
        [''dump'',
         ''-t'', Sprintf_d pid,
         ''-D'', ImagesDir opts,
         ''--log-file'', LogFile opts,
         ''-v4'',
         ''--tcp-established'',
         ''--file-locks'',
         ''--link-remap'',
         ''--force-irmap'',
         ''--manage-cgroups'',
         ''--enable-external-sharing'',
         ''--enable-external-masters'',
         ''--enable-fs'', ''hugetlbfs'',
         ''--enable-fs'', ''tracefs'',
         ''--skip-mnt'', ''/proc'',
         ''--skip-mnt'', ''/dev'',
         ''--skip-mnt'', ''/sys'',
         ''--skip-mnt'', ''/run''];
        args = (if LeaveRunning opts then args @ [''--leave-running''] else args)
      in external_args (External opts) args)"

text \<open>\<open>BuildCRIUCommandArgs\<close> (criu_cmd.go), the sibling builder "for debugging".\<close>

definition BuildCRIUCommandArgs :: "int \<Rightarrow> CheckpointOptions \<Rightarrow> string list" where
  "BuildCRIUCommandArgs pid opts =
     (let args =
        [''criu'', ''dump'',
         ''-t'', Sprintf_d pid,
         ''-D'', ImagesDir opts,
         ''--log-file'', LogFile opts,
         ''-v4''];
        args = (if LeaveRunning opts then args @ [''--leave-running''] else args);
        args = (if TcpEstablished opts then args @ [''--tcp-established''] else args);
        args = (if FileLocks opts then args @ [''--file-locks''] else args);
        args = (if ManageCgroups opts then args @ [''--manage-cgroups''] else args);
        args = (if Shell opts then args @ [''--shell-job''] else args)
      in external_args (External opts) args)"

section \<open>pkg/restore: the restore-time external mount list\<close>

text \<open>\<open>buildExternalMountArgs\<close>: \<open>skipMap\<close> is the set of the skip list's entries
  (\<open>skipMap[p]\<close> is true exactly for them).\<close>

fun skipMap_loop :: "string list \<Rightarrow> (string \<Rightarrow> bool) \<Rightarrow> (string \<Rightarrow> bool)" where
  "skipMap_loop [] skipMap = skipMap"
| "skipMap_loop (skip # rest) skipMap = skipMap_loop rest (skipMap(skip := True))"

fun buildExternalMountArgs_loop ::
  "(string \<Rightarrow> bool) \<Rightarrow> MountMapping list \<Rightarrow> string list \<Rightarrow> string list" where
  "buildExternalMountArgs_loop skipMap [] external = external"
| "buildExternalMountArgs_loop skipMap (mapping # rest) external =
     (if IsExternal mapping \<and> \<not> skipMap (ContainerPath mapping)
      then (if HostPath mapping \<noteq> ''''
            then buildExternalMountArgs_loop skipMap rest
                   (external @ [''mnt['' @ ContainerPath mapping @ '']:'' @ HostPath mapping])
            else buildExternalMountArgs_loop skipMap rest
                   (external @ [''mnt:'' @ ContainerPath mapping]))
      else buildExternalMountArgs_loop skipMap rest external)"

definition essentialMounts :: "string list" where
  "essentialMounts = [''mnt:/proc'', ''mnt:/dev'', ''mnt:/sys'']"

fun append_each :: "string list \<Rightarrow> string list \<Rightarrow> string list" where
  "append_each [] external = external"
| "append_each (mount # rest) external = append_each rest (external @ [mount])"

definition buildExternalMountArgs :: "MountMapping list \<Rightarrow> string list \<Rightarrow> string list" where
  "buildExternalMountArgs mappings skipMounts =
     (let skipMap = skipMap_loop skipMounts (\<lambda>_. False);
          external = buildExternalMountArgs_loop skipMap mappings []
      in append_each essentialMounts external)"

section \<open>Errors and panics\<close>

text \<open>
  A Go \<open>error\<close> is represented by its message (\<open>err.Error()\<close>);
  \<open>fmt.Errorf("ctx: %w", err)\<close> is the message \<open>ctx: \<close> followed by the message of
  \<open>err\<close>.  A run-time panic (nil dereference, slice bounds) is a failure of its own kind:
  it is never caught by an \<open>if err != nil\<close>.
\<close>

datatype failure = Err string | Panic string

type_synonym 'a result = "failure + 'a"

section \<open>The host file system, as the program observes it\<close>

text \<open>
  The program reaches the host only through \<open>os.Stat\<close>, \<open>os.MkdirAll\<close>, \<open>os.WriteFile\<close>,
  \<open>os.ReadFile\<close>, \<open>os.ReadDir\<close> and \<open>os.Open\<close>.  The host is modelled by what it answers
  at each path string: nothing there (\<open>Absent\<close>: \<open>os.Stat\<close> fails with an error for which
  \<open>os.IsNotExist\<close> holds), a path on which \<open>os.Stat\<close> fails with any other error
  (\<open>StatFails\<close>, carrying the message: a file in the place of a parent directory, no search
  permission), a regular file with its bytes, or a directory with its entries.
  \<open>refuse\<close> gives, for a path, the error with which the system refuses to open, create
  or write it (no permission, read-only file system), if it does.  Path strings are
  keys: two spellings of one path are two keys, and creating a directory records the
  directory itself, not its parents.
\<close>

record FileInfo =
  IsDir :: bool
  Size :: nat

datatype dirent = Dirent string "FileInfo option"

datatype node = Absent | StatFails string | File string | Dir "dirent list"

record host =
  fs :: "string \<Rightarrow> node"
  refuse :: "string \<Rightarrow> string option"

datatype os_error = OsError bool string

fun os_IsNotExist :: "os_error option \<Rightarrow> bool" where
  "os_IsNotExist None = False"
| "os_IsNotExist (Some (OsError not_exist msg)) = not_exist"

fun os_Msg :: "os_error \<Rightarrow> string" where
  "os_Msg (OsError not_exist msg) = msg"

definition os_Stat :: "host \<Rightarrow> string \<Rightarrow> os_error + FileInfo" where
  "os_Stat h p =
     (case fs h p of
        Absent \<Rightarrow> Inl (OsError True (''stat '' @ p @ '': no such file or directory''))
      | StatFails msg \<Rightarrow> Inl (OsError False msg)
      | File bytes \<Rightarrow> Inr \<lparr>IsDir = False, Size = length bytes\<rparr>
      | Dir entries \<Rightarrow> Inr \<lparr>IsDir = True, Size = 0\<rparr>)"

definition os_MkdirAll :: "host \<Rightarrow> string \<Rightarrow> os_error + host" where
  "os_MkdirAll h p =
     (case os_Stat h p of
        Inr info \<Rightarrow>
          if IsDir info then Inr h
          else Inl (OsError False (''mkdir '' @ p @ '': not a directory''))
      | Inl e \<Rightarrow>
          (case fs h p of
             StatFails msg \<Rightarrow> Inl (OsError False msg)
           | _ \<Rightarrow>
               (case refuse h p of
                  Some msg \<Rightarrow> Inl (OsError False msg)
                | None \<Rightarrow> Inr (h\<lparr>fs := (fs h)(p := Dir [])\<rparr>))))"

definition os_WriteFile :: "host \<Rightarrow> string \<Rightarrow> string \<Rightarrow> os_error + host" where
  "os_WriteFile h p bytes =
     (case fs h p of
        Dir entries \<Rightarrow> Inl (OsError False (''open '' @ p @ '': is a directory''))
      | StatFails msg \<Rightarrow> Inl (OsError False msg)
      | _ \<Rightarrow>
          (case refuse h p of
             Some msg \<Rightarrow> Inl (OsError False msg)
           | None \<Rightarrow> Inr (h\<lparr>fs := (fs h)(p := File bytes)\<rparr>)))"

definition os_ReadFile :: "host \<Rightarrow> string \<Rightarrow> os_error + string" where
  "os_ReadFile h p =
     (case fs h p of
        Absent \<Rightarrow> Inl (OsError True (''open '' @ p @ '': no such file or directory''))
      | StatFails msg \<Rightarrow> Inl (OsError False msg)
      | Dir entries \<Rightarrow> Inl (OsError False (''read '' @ p @ '': is a directory''))
      | File bytes \<Rightarrow>
          (case refuse h p of
             Some msg \<Rightarrow> Inl (OsError False msg)
           | None \<Rightarrow> Inr bytes))"

definition os_ReadDir :: "host \<Rightarrow> string \<Rightarrow> os_error + dirent list" where
  "os_ReadDir h p =
     (case fs h p of
        Absent \<Rightarrow> Inl (OsError True (''open '' @ p @ '': no such file or directory''))
      | StatFails msg \<Rightarrow> Inl (OsError False msg)
      | File bytes \<Rightarrow> Inl (OsError False (''readdirent '' @ p @ '': not a directory''))
      | Dir entries \<Rightarrow>
          (case refuse h p of
             Some msg \<Rightarrow> Inl (OsError False msg)
           | None \<Rightarrow> Inr entries))"

text \<open>\<open>os.Open\<close>: the descriptor of an opened path is represented by the path.\<close>

definition os_Open :: "host \<Rightarrow> string \<Rightarrow> os_error + string" where
  "os_Open h p =
     (case fs h p of
        Absent \<Rightarrow> Inl (OsError True (''open '' @ p @ '': no such file or directory''))
      | StatFails msg \<Rightarrow> Inl (OsError False msg)
      | _ \<Rightarrow>
          (case refuse h p of
             Some msg \<Rightarrow> Inl (OsError False msg)
           | None \<Rightarrow> Inr p))"

section \<open>path/filepath\<close>

text \<open>
  \<open>filepath.Clean\<close>, \<open>filepath.Join\<close> and \<open>filepath.Dir\<close> on Unix paths, element by
  element as the library does: empty and \<open>.\<close> elements are dropped, \<open>..\<close> removes the
  element before it (and is kept only at the front of a relative path).
\<close>

fun split_slash :: "string \<Rightarrow> string list" where
  "split_slash [] = [[]]"
| "split_slash (c # cs) =
     (if c = CHR ''/'' then [] # split_slash cs
      else (case split_slash cs of [] \<Rightarrow> [[c]] | w # ws \<Rightarrow> (c # w) # ws))"

fun join_slash :: "string list \<Rightarrow> string" where
  "join_slash [] = []"
| "join_slash [e] = e"
| "join_slash (e # es) = e @ ''/'' @ join_slash es"

fun Clean_loop :: "bool \<Rightarrow> string list \<Rightarrow> string list \<Rightarrow> string list" where
  "Clean_loop rooted [] out = rev out"
| "Clean_loop rooted (e # es) out =
     (if e = [] \<or> e = ''.'' then Clean_loop rooted es out
      else if e = ''..'' then
        (case out of
           [] \<Rightarrow> if rooted then Clean_loop rooted es [] else Clean_loop rooted es [''..'']
         | last_elem # below \<Rightarrow>
             if last_elem \<noteq> ''..'' then Clean_loop rooted es below
             else Clean_loop rooted es (''..'' # out))
      else Clean_loop rooted es (e # out))"

definition Clean :: "string \<Rightarrow> string" where
  "Clean path =
     (if path = [] then ''.''
      else
        (let rooted = (hd path = CHR ''/'');
             out = (if rooted then ''/'' else []) @ join_slash (Clean_loop rooted (split_slash path) [])
         in if out = [] then ''.'' else out))"

definition filepath_Join :: "string \<Rightarrow> string \<Rightarrow> string" where
  "filepath_Join a b =
     (if a \<noteq> [] then Clean (a @ ''/'' @ b)
      else if b \<noteq> [] then Clean b
      else [])"

definition filepath_Dir :: "string \<Rightarrow> string" where
  "filepath_Dir path = Clean (rev (dropWhile (\<lambda>c. c \<noteq> CHR ''/'') (rev path)))"

section \<open>pkg/utils/file.go\<close>

text \<open>\<open>FileExists\<close>: true unless \<open>os.Stat\<close> reports that the path does not exist.\<close>

definition FileExists :: "host \<Rightarrow> string \<Rightarrow> bool" where
  "FileExists h filePath =
     (case os_Stat h filePath of
        Inl err \<Rightarrow> \<not> os_IsNotExist (Some err)
      | Inr info \<Rightarrow> \<not> os_IsNotExist None)"

text \<open>\<open>DirExists\<close>: \<open>!os.IsNotExist(err) && info.IsDir()\<close>.  When \<open>os.Stat\<close> fails with
  an error other than not-exist, \<open>info\<close> is nil and the call \<open>info.IsDir()\<close> panics.\<close>

definition DirExists :: "host \<Rightarrow> string \<Rightarrow> bool result" where
  "DirExists h dirPath =
     (case os_Stat h dirPath of
        Inl err \<Rightarrow>
          if \<not> os_IsNotExist (Some err)
          then Inl (Panic ''invalid memory address or nil pointer dereference'')
          else Inr False
      | Inr info \<Rightarrow> Inr (\<not> os_IsNotExist None \<and> IsDir info))"

definition EnsureDir :: "host \<Rightarrow> string \<Rightarrow> host result" where
  "EnsureDir h dirPath =
     (case DirExists h dirPath of
        Inl f \<Rightarrow> Inl f
      | Inr exists \<Rightarrow>
          if \<not> exists
          then (case os_MkdirAll h dirPath of
                  Inl err \<Rightarrow> Inl (Err (''failed to create directory '' @ dirPath @ '': '' @ os_Msg err))
                | Inr h' \<Rightarrow> Inr h')
          else Inr h)"

definition ReadFile :: "host \<Rightarrow> string \<Rightarrow> string result" where
  "ReadFile h filePath =
     (case os_ReadFile h filePath of
        Inl err \<Rightarrow> Inl (Err (''failed to read file '' @ filePath @ '': '' @ os_Msg err))
      | Inr bytes \<Rightarrow> Inr bytes)"

text \<open>\<open>ListFiles\<close>: the entries whose \<open>Info()\<close> succeeds, each with its name.\<close>

fun ListFiles_loop :: "dirent list \<Rightarrow> (string \<times> FileInfo) list \<Rightarrow> (string \<times> FileInfo) list" where
  "ListFiles_loop [] files = files"
| "ListFiles_loop (Dirent name None # rest) files = ListFiles_loop rest files"
| "ListFiles_loop (Dirent name (Some info) # rest) files = ListFiles_loop rest (files @ [(name, info)])"

definition ListFiles :: "host \<Rightarrow> string \<Rightarrow> (string \<times> FileInfo) list result" where
  "ListFiles h dirPath =
     (case os_ReadDir h dirPath of
        Inl err \<Rightarrow> Inl (Err (''failed to read directory '' @ dirPath @ '': '' @ os_Msg err))
      | Inr entries \<Rightarrow> Inr (ListFiles_loop entries []))"

definition WriteFile :: "host \<Rightarrow> string \<Rightarrow> string \<Rightarrow> host result" where
  "WriteFile h filePath bytes =
     (let dir = filepath_Dir filePath in
      case os_MkdirAll h dir of
        Inl err \<Rightarrow> Inl (Err (''failed to create directory '' @ dir @ '': '' @ os_Msg err))
      | Inr h' \<Rightarrow>
          (case os_WriteFile h' filePath bytes of
             Inl err \<Rightarrow> Inl (Err (''failed to write file '' @ filePath @ '': '' @ os_Msg err))
           | Inr h'' \<Rightarrow> Inr h''))"

section \<open>Types declared outside the repository\<close>

text \<open>
  The Docker SDK (\<open>github.com/docker/docker/api/types\<close>) and go-criu's \<open>rpc\<close> package
  declare the structures below.  Only the members that the repository reads or sets, or
  that the specification names, are listed.  A Go pointer is an \<open>option\<close> (\<open>None\<close> is
  nil), a \<open>map[string]T\<close> a finite map, a slice a list (nil and empty are not told
  apart).  In the SDK, \<open>Resources\<close> is a struct embedded in \<open>HostConfig\<close>; the members
  listed for it (among them the device mappings and the cgroup parent) are members of
  that struct.
\<close>

definition int32 :: "int \<Rightarrow> int" where
  "int32 n = sint (word_of_int n :: 32 word)"

record DeviceMapping =
  PathOnHost :: string
  PathInContainer :: string
  CgroupPermissions :: string

record Resources =
  CPUShares :: int
  Memory :: int
  CgroupParent :: string
  Devices :: "DeviceMapping list"

record RestartPolicy =
  Name :: string
  MaximumRetryCount :: int

record PortBinding =
  HostIP :: string
  HostPort :: string

record HostConfig =
  Binds :: "string list"
  NetworkMode :: string
  PortBindings :: "(string, PortBinding list) fmap"
  RestartPolicy :: RestartPolicy
  CapAdd :: "string list"
  CapDrop :: "string list"
  IpcMode :: string
  PidMode :: string
  Privileged :: bool
  ReadonlyRootfs :: bool
  SecurityOpt :: "string list"
  Runtime :: string
  Resources :: Resources

record Config =
  User :: string
  ExposedPorts :: "string set"
  Tty :: bool
  OpenStdin :: bool
  StdinOnce :: bool
  Env :: "string list"
  Cmd :: "string list"
  Image :: string
  WorkingDir :: string
  Entrypoint :: "string list"
  Labels :: "(string, string) fmap"

record MountPoint =
  Type :: string
  Source :: string
  Destination :: string
  Mode :: string
  RW :: bool

typedecl EndpointSettings

datatype Time = UnixNano int

record InspectState =
  Running :: bool
  Pid :: int

record NetworkSettings =
  Networks :: "(string, EndpointSettings option) fmap"

record GraphDriverData =
  Data :: "(string, string) fmap"

record ContainerJSON =
  ID :: string
  Created :: string
  State :: "InspectState option"
  Name :: string
  HostConfig :: "HostConfig option"
  GraphDriver :: GraphDriverData
  Mounts :: "MountPoint list"
  Config :: "Config option"
  NetworkSettings :: "NetworkSettings option"

datatype CriuCgMode = CgMode_SOFT

record CriuOpts =
  ImagesDirFd :: "string option"
  Pid :: "int option"
  LeaveRunning :: "bool option"
  ExtUnixSk :: "bool option"
  TcpEstablished :: "bool option"
  ShellJob :: "bool option"
  FileLocks :: "bool option"
  LogLevel :: "int option"
  LogFile :: "string option"
  RstSibling :: "bool option"
  WorkDirFd :: "string option"
  ManageCgroups :: "bool option"
  TrackMem :: "bool option"
  EmptyNs :: "nat option"
  ManageCgroupsMode :: "CriuCgMode option"
  GhostLimit :: "nat option"
  External :: "string list"

definition CriuOpts_zero :: CriuOpts where
  "CriuOpts_zero =
     \<lparr>ImagesDirFd = None, Pid = None, CriuOpts.LeaveRunning = None, ExtUnixSk = None,
      CriuOpts.TcpEstablished = None, ShellJob = None, CriuOpts.FileLocks = None,
      CriuOpts.LogLevel = None, CriuOpts.LogFile = None, RstSibling = None, WorkDirFd = None,
      CriuOpts.ManageCgroups = None, CriuOpts.TrackMem = None, EmptyNs = None,
      ManageCgroupsMode = None, GhostLimit = None, CriuOpts.External = []\<rparr>"

section \<open>Types declared in the repository\<close>

text \<open>\<open>ContainerState\<close> (pkg/docker/manager.go).\<close>

record ContainerState =
  ID :: string
  Name :: string
  Image :: string
  Config :: "Config option"
  HostConfig :: "HostConfig option"
  NetworkConfig :: "(string, EndpointSettings option) fmap"
  Mounts :: "MountPoint list"
  ProcessPID :: int
  Created :: Time
  RootFS :: string
  Runtime :: string
  BundlePath :: string
  CgroupPath :: string
  Namespaces :: "(string, string) fmap"
  Environment :: "(string, string) fmap"
  Labels :: "(string, string) fmap"

text \<open>\<open>CheckpointMetadata\<close> (pkg/checkpoint), \<open>RestoreOptions\<close> (criu.go) and
  \<open>RestoreConfig\<close> (pkg/restore).\<close>

record CheckpointMetadata =
  ContainerState :: "ContainerState option"
  MountMappings :: "MountMapping list"
  CheckpointPath :: string
  CreatedAt :: string
  Version :: string

record RestoreOptions =
  WorkDir :: string
  ImagesDir :: string
  LogFile :: string
  LogLevel :: int
  External :: "string list"
  ExtMountMap :: "string list"
  SkipMnt :: "string list"
  PidFile :: string
  ManageCgroups :: bool
  TcpEstablished :: bool
  RestoreSibling :: bool
  Shell :: bool
  EmptyNs :: nat

record RestoreConfig =
  CheckpointDir :: string
  NewContainerName :: string
  LogLevel :: int
  ManageCgroups :: bool
  TcpEstablished :: bool
  RestoreSibling :: bool
  Shell :: bool
  ValidateEnv :: bool
  AutoFixMounts :: bool
  SkipMounts :: "string list"

section \<open>encoding/json\<close>

text \<open>
  A JSON document is a value of type \<open>json\<close>; numbers are integers (the repository's
  own types have no other).  The library is modelled in two layers.  The text layer
  (printing a document with \<open>MarshalIndent\<close>, parsing the bytes in \<open>Unmarshal\<close>) and
  the encodings of the types that the Docker SDK and the \<open>time\<close> package declare are
  taken as parameters, the record \<open>json_lib\<close>.  The layer between a document and a
  structure of the repository is written out from the structures' field tags:
  \<open>Marshal\<close> emits the fields in declaration order under their tags, a map with its keys
  sorted; \<open>Unmarshal\<close> walks the members of an object in order, assigns a member to the
  field whose tag equals its key up to letter case, ignores unknown keys, leaves a field
  unchanged on \<open>null\<close>, and fails on a value of the wrong kind.
\<close>

datatype json =
    JNull
  | JBool bool
  | JNumber int
  | JString string
  | JArray "json list"
  | JObject "(string \<times> json) list"

record json_lib =
  MarshalIndent_text :: "json \<Rightarrow> string + string"
  Unmarshal_text :: "string \<Rightarrow> string + json"
  enc_Config :: "Config \<Rightarrow> json"
  dec_Config :: "json \<Rightarrow> string + Config"
  enc_HostConfig :: "HostConfig \<Rightarrow> json"
  dec_HostConfig :: "json \<Rightarrow> string + HostConfig"
  enc_EndpointSettings :: "EndpointSettings \<Rightarrow> json"
  dec_EndpointSettings :: "json \<Rightarrow> string + EndpointSettings"
  enc_MountPoint :: "MountPoint \<Rightarrow> json"
  dec_MountPoint :: "json \<Rightarrow> string + MountPoint"
  enc_Time :: "Time \<Rightarrow> json"
  dec_Time :: "json \<Rightarrow> string + Time"

definition to_lower :: "char \<Rightarrow> char" where
  "to_lower c =
     (case map_of (zip ''ABCDEFGHIJKLMNOPQRSTUVWXYZ'' ''abcdefghijklmnopqrstuvwxyz'') c of
        None \<Rightarrow> c
      | Some l \<Rightarrow> l)"

fun bindE :: "'e + 'a \<Rightarrow> ('a \<Rightarrow> 'e + 'b) \<Rightarrow> 'e + 'b" where
  "bindE (Inl e) f = Inl e"
| "bindE (Inr x) f = f x"

fun mapE :: "('a \<Rightarrow> 'e + 'b) \<Rightarrow> 'a list \<Rightarrow> 'e + 'b list" where
  "mapE f [] = Inr []"
| "mapE f (x # xs) = bindE (f x) (\<lambda>y. bindE (mapE f xs) (\<lambda>ys. Inr (y # ys)))"

subsection \<open>Decoding into Go values\<close>

text \<open>Each decoder takes the document and the current value of the destination.\<close>

fun as_string :: "json \<Rightarrow> string \<Rightarrow> string + string" where
  "as_string (JString s) cur = Inr s"
| "as_string JNull cur = Inr cur"
| "as_string j cur = Inl ''json: cannot unmarshal value into Go value of type string''"

fun as_bool :: "json \<Rightarrow> bool \<Rightarrow> string + bool" where
  "as_bool (JBool b) cur = Inr b"
| "as_bool JNull cur = Inr cur"
| "as_bool j cur = Inl ''json: cannot unmarshal value into Go value of type bool''"

fun as_int :: "json \<Rightarrow> int \<Rightarrow> string + int" where
  "as_int (JNumber n) cur =
     (if - (2 ^ 63) \<le> n \<and> n < 2 ^ 63 then Inr n
      else Inl ''json: cannot unmarshal number into Go value of type int'')"
| "as_int JNull cur = Inr cur"
| "as_int j cur = Inl ''json: cannot unmarshal value into Go value of type int''"

fun as_ptr :: "(json \<Rightarrow> string + 'a) \<Rightarrow> json \<Rightarrow> string + 'a option" where
  "as_ptr dec JNull = Inr None"
| "as_ptr dec j = bindE (dec j) (\<lambda>x. Inr (Some x))"

fun as_slice :: "(json \<Rightarrow> string + 'a) \<Rightarrow> json \<Rightarrow> 'a list \<Rightarrow> string + 'a list" where
  "as_slice dec (JArray js) cur = mapE dec js"
| "as_slice dec JNull cur = Inr cur"
| "as_slice dec j cur = Inl ''json: cannot unmarshal value into Go value of slice type''"

fun as_map_loop ::
  "(json \<Rightarrow> string + 'a) \<Rightarrow> (string \<times> json) list \<Rightarrow> (string, 'a) fmap \<Rightarrow> string + (string, 'a) fmap" where
  "as_map_loop dec [] m = Inr m"
| "as_map_loop dec ((k, v) # kvs) m = bindE (dec v) (\<lambda>x. as_map_loop dec kvs (fmupd k x m))"

fun as_map ::
  "(json \<Rightarrow> string + 'a) \<Rightarrow> json \<Rightarrow> (string, 'a) fmap \<Rightarrow> string + (string, 'a) fmap" where
  "as_map dec (JObject kvs) cur = as_map_loop dec kvs cur"
| "as_map dec JNull cur = Inr cur"
| "as_map dec j cur = Inl ''json: cannot unmarshal value into Go value of map type''"

fun decode_fields ::
  "(string \<Rightarrow> json \<Rightarrow> 'r \<Rightarrow> string + 'r) \<Rightarrow> (string \<times> json) list \<Rightarrow> 'r \<Rightarrow> string + 'r" where
  "decode_fields field [] r = Inr r"
| "decode_fields field ((k, v) # kvs) r =
     bindE (field (map to_lower k) v r) (\<lambda>r'. decode_fields field kvs r')"

fun as_struct ::
  "(string \<Rightarrow> json \<Rightarrow> 'r \<Rightarrow> string + 'r) \<Rightarrow> json \<Rightarrow> 'r \<Rightarrow> string + 'r" where
  "as_struct field (JObject kvs) cur = decode_fields field kvs cur"
| "as_struct field JNull cur = Inr cur"
| "as_struct field j cur = Inl ''json: cannot unmarshal value into Go value of struct type''"

subsection \<open>\<open>MountMapping\<close>\<close>

definition MountMapping_zero :: MountMapping where
  "MountMapping_zero =
     \<lparr>ContainerPath = '''', HostPath = '''', MountMapping.Type = '''', Options = '''',
      IsExternal = False, ReadOnly = False\<rparr>"

definition MountMapping_to_json :: "MountMapping \<Rightarrow> json" where
  "MountMapping_to_json m =
     JObject
       [(''container_path'', JString (ContainerPath m)),
        (''host_path'', JString (HostPath m)),
        (''type'', JString (MountMapping.Type m)),
        (''options'', JString (Options m)),
        (''is_external'', JBool (IsExternal m)),
        (''read_only'', JBool (ReadOnly m))]"

definition MountMapping_field :: "string \<Rightarrow> json \<Rightarrow> MountMapping \<Rightarrow> string + MountMapping" where
  "MountMapping_field key v m =
     (if key = ''container_path'' then bindE (as_string v (ContainerPath m)) (\<lambda>x. Inr (m\<lparr>ContainerPath := x\<rparr>))
      else if key = ''host_path'' then bindE (as_string v (HostPath m)) (\<lambda>x. Inr (m\<lparr>HostPath := x\<rparr>))
      else if key = ''type'' then bindE (as_string v (MountMapping.Type m)) (\<lambda>x. Inr (m\<lparr>MountMapping.Type := x\<rparr>))
      else if key = ''options'' then bindE (as_string v (Options m)) (\<lambda>x. Inr (m\<lparr>Options := x\<rparr>))
      else if key = ''is_external'' then bindE (as_bool v (IsExternal m)) (\<lambda>x. Inr (m\<lparr>IsExternal := x\<rparr>))
      else if key = ''read_only'' then bindE (as_bool v (ReadOnly m)) (\<lambda>x. Inr (m\<lparr>ReadOnly := x\<rparr>))
      else Inr m)"

definition MountMappings_to_json :: "MountMapping list \<Rightarrow> json" where
  "MountMappings_to_json mappings = JArray (map MountMapping_to_json mappings)"

definition MountMappings_of_json :: "json \<Rightarrow> MountMapping list \<Rightarrow> string + MountMapping list" where
  "MountMappings_of_json j cur =
     as_slice (\<lambda>e. as_struct MountMapping_field e MountMapping_zero) j cur"

subsection \<open>\<open>ContainerState\<close>\<close>

definition strmap_to_json :: "('a \<Rightarrow> json) \<Rightarrow> (string, 'a) fmap \<Rightarrow> json" where
  "strmap_to_json enc m =
     JObject (map (\<lambda>k. (k, enc (the (fmlookup m k)))) (sorted_list_of_fset (fmdom m)))"

definition ptr_to_json :: "('a \<Rightarrow> json) \<Rightarrow> 'a option \<Rightarrow> json" where
  "ptr_to_json enc p = (case p of None \<Rightarrow> JNull | Some x \<Rightarrow> enc x)"

definition ContainerState_zero :: ContainerState where
  "ContainerState_zero =
     \<lparr>ContainerState.ID = '''', ContainerState.Name = '''', ContainerState.Image = '''',
      ContainerState.Config = None, ContainerState.HostConfig = None, NetworkConfig = fmempty,
      ContainerState.Mounts = [], ProcessPID = 0, ContainerState.Created = UnixNano 0,
      RootFS = '''', ContainerState.Runtime = '''', BundlePath = '''', CgroupPath = '''',
      Namespaces = fmempty, Environment = fmempty, ContainerState.Labels = fmempty\<rparr>"

definition ContainerState_to_json :: "json_lib \<Rightarrow> ContainerState \<Rightarrow> json" where
  "ContainerState_to_json J s =
     JObject
       [(''id'', JString (ContainerState.ID s)),
        (''name'', JString (ContainerState.Name s)),
        (''image'', JString (ContainerState.Image s)),
        (''config'', ptr_to_json (enc_Config J) (ContainerState.Config s)),
        (''host_config'', ptr_to_json (enc_HostConfig J) (ContainerState.HostConfig s)),
        (''network_config'', strmap_to_json (ptr_to_json (enc_EndpointSettings J)) (NetworkConfig s)),
        (''mounts'', JArray (map (enc_MountPoint J) (ContainerState.Mounts s))),
        (''process_pid'', JNumber (ProcessPID s)),
        (''created'', enc_Time J (ContainerState.Created s)),
        (''rootfs'', JString (RootFS s)),
        (''runtime'', JString (ContainerState.Runtime s)),
        (''bundle_path'', JString (BundlePath s)),
        (''cgroup_path'', JString (CgroupPath s)),
        (''namespaces'', strmap_to_json JString (Namespaces s)),
        (''environment'', strmap_to_json JString (Environment s)),
        (''labels'', strmap_to_json JString (ContainerState.Labels s))]"

definition ContainerState_field ::
  "json_lib \<Rightarrow> string \<Rightarrow> json \<Rightarrow> ContainerState \<Rightarrow> string + ContainerState" where
  "ContainerState_field J key v s =
     (if key = ''id'' then
        bindE (as_string v (ContainerState.ID s)) (\<lambda>x. Inr (s\<lparr>ContainerState.ID := x\<rparr>))
      else if key = ''name'' then
        bindE (as_string v (ContainerState.Name s)) (\<lambda>x. Inr (s\<lparr>ContainerState.Name := x\<rparr>))
      else if key = ''image'' then
        bindE (as_string v (ContainerState.Image s)) (\<lambda>x. Inr (s\<lparr>ContainerState.Image := x\<rparr>))
      else if key = ''config'' then
        bindE (as_ptr (dec_Config J) v) (\<lambda>x. Inr (s\<lparr>ContainerState.Config := x\<rparr>))
      else if key = ''host_config'' then
        bindE (as_ptr (dec_HostConfig J) v) (\<lambda>x. Inr (s\<lparr>ContainerState.HostConfig := x\<rparr>))
      else if key = ''network_config'' then
        bindE (as_map (as_ptr (dec_EndpointSettings J)) v (NetworkConfig s))
          (\<lambda>x. Inr (s\<lparr>NetworkConfig := x\<rparr>))
      else if key = ''mounts'' then
        bindE (as_slice (dec_MountPoint J) v (ContainerState.Mounts s))
          (\<lambda>x. Inr (s\<lparr>ContainerState.Mounts := x\<rparr>))
      else if key = ''process_pid'' then
        bindE (as_int v (ProcessPID s)) (\<lambda>x. Inr (s\<lparr>ProcessPID := x\<rparr>))
      else if key = ''created'' then
        bindE (dec_Time J v) (\<lambda>x. Inr (s\<lparr>ContainerState.Created := x\<rparr>))
      else if key = ''rootfs'' then
        bindE (as_string v (RootFS s)) (\<lambda>x. Inr (s\<lparr>RootFS := x\<rparr>))
      else if key = ''runtime'' then
        bindE (as_string v (ContainerState.Runtime s)) (\<lambda>x. Inr (s\<lparr>ContainerState.Runtime := x\<rparr>))
      else if key = ''bundle_path'' then
        bindE (as_string v (BundlePath s)) (\<lambda>x. Inr (s\<lparr>BundlePath := x\<rparr>))
      else if key = ''cgroup_path'' then
        bindE (as_string v (CgroupPath s)) (\<lambda>x. Inr (s\<lparr>CgroupPath := x\<rparr>))
      else if key = ''namespaces'' then
        bindE (as_map (\<lambda>e. as_string e '''') v (Namespaces s)) (\<lambda>x. Inr (s\<lparr>Namespaces := x\<rparr>))
      else if key = ''environment'' then
        bindE (as_map (\<lambda>e. as_string e '''') v (Environment s)) (\<lambda>x. Inr (s\<lparr>Environment := x\<rparr>))
      else if key = ''labels'' then
        bindE (as_map (\<lambda>e. as_string e '''') v (ContainerState.Labels s))
          (\<lambda>x. Inr (s\<lparr>ContainerState.Labels := x\<rparr>))
      else Inr s)"

definition ContainerState_of_json :: "json_lib \<Rightarrow> json \<Rightarrow> ContainerState \<Rightarrow> string + ContainerState" where
  "ContainerState_of_json J j cur = as_struct (ContainerState_field J) j cur"

subsection \<open>\<open>CheckpointMetadata\<close>\<close>

definition CheckpointMetadata_zero :: CheckpointMetadata where
  "CheckpointMetadata_zero =
     \<lparr>CheckpointMetadata.ContainerState = None, MountMappings = [], CheckpointPath = '''',
      CreatedAt = '''', Version = ''''\<rparr>"

definition CheckpointMetadata_field ::
  "json_lib \<Rightarrow> string \<Rightarrow> json \<Rightarrow> CheckpointMetadata \<Rightarrow> string + CheckpointMetadata" where
  "CheckpointMetadata_field J key v md =
     (if key = ''container_state'' then
        bindE (as_ptr (\<lambda>e. ContainerState_of_json J e
                        (case CheckpointMetadata.ContainerState md of
                           None \<Rightarrow> ContainerState_zero | Some s \<Rightarrow> s)) v)
          (\<lambda>x. Inr (md\<lparr>CheckpointMetadata.ContainerState := x\<rparr>))
      else if key = ''mount_mappings'' then
        bindE (MountMappings_of_json v (MountMappings md)) (\<lambda>x. Inr (md\<lparr>MountMappings := x\<rparr>))
      else if key = ''checkpoint_path'' then
        bindE (as_string v (CheckpointPath md)) (\<lambda>x. Inr (md\<lparr>CheckpointPath := x\<rparr>))
      else if key = ''created_at'' then
        bindE (as_string v (CreatedAt md)) (\<lambda>x. Inr (md\<lparr>CreatedAt := x\<rparr>))
      else if key = ''version'' then
        bindE (as_string v (Version md)) (\<lambda>x. Inr (md\<lparr>Version := x\<rparr>))
      else Inr md)"

definition CheckpointMetadata_of_json ::
  "json_lib \<Rightarrow> json \<Rightarrow> CheckpointMetadata \<Rightarrow> string + CheckpointMetadata" where
  "CheckpointMetadata_of_json J j cur = as_struct (CheckpointMetadata_field J) j cur"

section \<open>The world outside the program\<close>

text \<open>
  Besides the host file system the program talks to the container runtime (the Docker
  client), to the snapshot engine (the go-criu library and the \<open>criu\<close> binary) and to its
  logger.  Every such call is recorded, with its arguments and its answer, in a trace;
  a log line is recorded with its level and message.  The answers are parameters of the
  model (the record \<open>env\<close>): each may depend on the whole world at the moment of the call,
  that is on the host and on everything that happened before, and each call may change
  the host.
\<close>

datatype level = DebugLevel | InfoLevel | WarnLevel | ErrorLevel

datatype event =
    Log level string
  | ContainerInspect string "string + ContainerJSON"
  | ContainerCreate Config HostConfig string "string + string"
  | ContainerStart string "string option"
  | ContainerStop string "int option" "string option"
  | ContainerLogs string string "string + string"
  | CriuPreDump CriuOpts "string option"
  | CriuDump CriuOpts "string option"
  | CriuRestore CriuOpts "string option"
  | ExecCriu string "string list" "string option \<times> string"

record world =
  hostfs :: host
  trace :: "event list"

record env =
  json :: json_lib
  docker_ContainerInspect :: "world \<Rightarrow> string \<Rightarrow> (string + ContainerJSON) \<times> host"
  docker_ContainerCreate :: "world \<Rightarrow> Config \<Rightarrow> HostConfig \<Rightarrow> string \<Rightarrow> (string + string) \<times> host"
  docker_ContainerStart :: "world \<Rightarrow> string \<Rightarrow> string option \<times> host"
  docker_ContainerStop :: "world \<Rightarrow> string \<Rightarrow> int option \<Rightarrow> string option \<times> host"
  docker_ContainerLogs :: "world \<Rightarrow> string \<Rightarrow> string \<Rightarrow> (string + string) \<times> host"
  criu_PreDump :: "world \<Rightarrow> CriuOpts \<Rightarrow> string option \<times> host"
  criu_Dump :: "world \<Rightarrow> CriuOpts \<Rightarrow> string option \<times> host"
  criu_Restore :: "world \<Rightarrow> CriuOpts \<Rightarrow> string option \<times> host"
  exec_criu :: "world \<Rightarrow> string \<Rightarrow> string list \<Rightarrow> (string option \<times> string) \<times> host"
  time_Parse :: "string \<Rightarrow> string + Time"
  time_Now :: "world \<Rightarrow> Time"

text \<open>
  A function of the program that has effects is a function from the world to its Go
  result (a value, an error or a panic) and the world after it.  \<open>andThen\<close> is
  sequencing with the early return of \<open>if err != nil { return ... }\<close>; \<open>wrap\<close> is
  \<open>fmt.Errorf(ctx + "%w", err)\<close> on that return; \<open>attempt\<close> hands the returned error to the
  caller as a value (\<open>if err := f(); err != nil { ... }\<close> with a body that goes on).
\<close>

type_synonym 'a prog = "world \<Rightarrow> 'a result \<times> world"

definition ok :: "'a \<Rightarrow> 'a prog" where
  "ok x w = (Inr x, w)"

definition fail :: "failure \<Rightarrow> 'a prog" where
  "fail f w = (Inl f, w)"

definition andThen :: "'a prog \<Rightarrow> ('a \<Rightarrow> 'b prog) \<Rightarrow> 'b prog" where
  "andThen m f w = (case m w of (Inl e, w') \<Rightarrow> (Inl e, w') | (Inr x, w') \<Rightarrow> f x w')"

definition wrap :: "string \<Rightarrow> 'a prog \<Rightarrow> 'a prog" where
  "wrap ctx m w =
     (case m w of
        (Inl (Err e), w') \<Rightarrow> (Inl (Err (ctx @ e)), w')
      | (Inl (Panic p), w') \<Rightarrow> (Inl (Panic p), w')
      | (Inr x, w') \<Rightarrow> (Inr x, w'))"

definition attempt :: "'a prog \<Rightarrow> (string + 'a) prog" where
  "attempt m w =
     (case m w of
        (Inl (Err e), w') \<Rightarrow> (Inr (Inl e), w')
      | (Inl (Panic p), w') \<Rightarrow> (Inl (Panic p), w')
      | (Inr x, w') \<Rightarrow> (Inr (Inr x), w'))"

definition log :: "level \<Rightarrow> string \<Rightarrow> unit prog" where
  "log lvl msg w = (Inr (), w\<lparr>trace := trace w @ [Log lvl msg]\<rparr>)"

definition read_host :: "(host \<Rightarrow> 'a result) \<Rightarrow> 'a prog" where
  "read_host f w = (f (hostfs w), w)"

definition on_host :: "(host \<Rightarrow> host result) \<Rightarrow> unit prog" where
  "on_host f w =
     (case f (hostfs w) of
        Inl e \<Rightarrow> (Inl e, w)
      | Inr h' \<Rightarrow> (Inr (), w\<lparr>hostfs := h'\<rparr>))"

definition extern :: "(world \<Rightarrow> 'a \<times> host) \<Rightarrow> ('a \<Rightarrow> event) \<Rightarrow> 'a prog" where
  "extern call ev w =
     (case call w of (a, h') \<Rightarrow> (Inr a, w\<lparr>hostfs := h', trace := trace w @ [ev a]\<rparr>))"

definition lift :: "'a result \<Rightarrow> 'a prog" where
  "lift r w = (r, w)"

text \<open>\<open>p.f\<close> on a pointer, \<open>s[:n]\<close> on a string, \<open>strings.Join\<close>, \<open>strings.TrimPrefix\<close>.\<close>

definition deref :: "'a option \<Rightarrow> 'a result" where
  "deref p = (case p of None \<Rightarrow> Inl (Panic ''invalid memory address or nil pointer dereference'')
                        | Some x \<Rightarrow> Inr x)"

definition slice_to :: "string \<Rightarrow> nat \<Rightarrow> string result" where
  "slice_to s n = (if n \<le> length s then Inr (take n s) else Inl (Panic ''slice bounds out of range''))"

fun strings_Join :: "string list \<Rightarrow> string \<Rightarrow> string" where
  "strings_Join [] sep = []"
| "strings_Join [e] sep = e"
| "strings_Join (e # es) sep = e @ sep @ strings_Join es sep"

definition TrimPrefix :: "string \<Rightarrow> string \<Rightarrow> string" where
  "TrimPrefix s p = (if HasPrefix s p then drop (length p) s else s)"

text \<open>The test \<open>!utils.FileExists(p) && !utils.DirExists(p)\<close>, with Go's short circuit.\<close>

definition not_FileExists_and_not_DirExists :: "host \<Rightarrow> string \<Rightarrow> bool result" where
  "not_FileExists_and_not_DirExists h p =
     (if \<not> FileExists h p
      then (case DirExists h p of Inl f \<Rightarrow> Inl f | Inr d \<Rightarrow> Inr (\<not> d))
      else Inr False)"

section \<open>pkg/checkpoint/criu.go and criu_cmd.go\<close>

definition logCRIUError :: "string \<Rightarrow> unit prog" where
  "logCRIUError logFile =
     (if logFile = '''' then ok ()
      else andThen (read_host (\<lambda>h. Inr (FileExists h logFile))) (\<lambda>exists.
        if exists then
          andThen (attempt (read_host (\<lambda>h. ReadFile h logFile))) (\<lambda>r.
            case r of
              Inr logData \<Rightarrow> log ErrorLevel (''CRIU error log:\<newline>'' @ logData)
            | Inl err \<Rightarrow> ok ())
        else ok ()))"

definition CheckpointProcessCmd :: "env \<Rightarrow> int \<Rightarrow> CheckpointOptions \<Rightarrow> unit prog" where
  "CheckpointProcessCmd E pid opts =
     andThen (log InfoLevel (''Starting CRIU checkpoint via command for PID '' @ Sprintf_d pid)) (\<lambda>_.
     let args = CheckpointProcessCmd_args pid opts in
     andThen (log DebugLevel (''Executing: criu '' @ strings_Join args '' '')) (\<lambda>_.
     andThen (extern (\<lambda>w. exec_criu E w (CheckpointOptions.WorkDir opts) args)
                (ExecCriu (CheckpointOptions.WorkDir opts) args)) (\<lambda>(err, output).
     case err of
       Some e \<Rightarrow>
         andThen (log ErrorLevel (''CRIU command failed: '' @ output)) (\<lambda>_.
         fail (Err (''CRIU checkpoint failed: '' @ e @ ''\<newline>Output: '' @ output)))
     | None \<Rightarrow>
         andThen (log InfoLevel ''CRIU checkpoint completed successfully'') (\<lambda>_.
         ok ()))))"

definition CheckpointProcess :: "env \<Rightarrow> int \<Rightarrow> CheckpointOptions \<Rightarrow> unit prog" where
  "CheckpointProcess E pid opts =
     andThen (log InfoLevel (''Starting CRIU checkpoint for PID '' @ Sprintf_d pid)) (\<lambda>_.
     andThen (wrap ''failed to create work directory: ''
                (on_host (\<lambda>h. EnsureDir h (CheckpointOptions.WorkDir opts)))) (\<lambda>_.
     andThen (wrap ''failed to create images directory: ''
                (on_host (\<lambda>h. EnsureDir h (CheckpointOptions.ImagesDir opts)))) (\<lambda>_.
     let criuOpts = CriuOpts_zero
           \<lparr>Pid := Some (int32 pid),
            CriuOpts.LogLevel := Some (int32 (CheckpointOptions.LogLevel opts)),
            CriuOpts.LogFile := Some (CheckpointOptions.LogFile opts),
            CriuOpts.ManageCgroups := Some (CheckpointOptions.ManageCgroups opts),
            CriuOpts.TcpEstablished := Some (CheckpointOptions.TcpEstablished opts),
            CriuOpts.FileLocks := Some (CheckpointOptions.FileLocks opts),
            CriuOpts.LeaveRunning := Some (CheckpointOptions.LeaveRunning opts),
            ShellJob := Some (CheckpointOptions.Shell opts),
            CriuOpts.External := CheckpointOptions.External opts,
            ExtUnixSk := Some True,
            GhostLimit := Some 0,
            ManageCgroupsMode := Some CgMode_SOFT\<rparr> in
     andThen (read_host (\<lambda>h. case os_Open h (CheckpointOptions.WorkDir opts) of
                Inl err \<Rightarrow> Inl (Err (''failed to open work directory: '' @ os_Msg err))
              | Inr fd \<Rightarrow> Inr fd)) (\<lambda>workDir.
     let criuOpts = criuOpts\<lparr>WorkDirFd := Some workDir\<rparr> in
     andThen (read_host (\<lambda>h. case os_Open h (CheckpointOptions.ImagesDir opts) of
                Inl err \<Rightarrow> Inl (Err (''failed to open images directory: '' @ os_Msg err))
              | Inr fd \<Rightarrow> Inr fd)) (\<lambda>imagesDir.
     let criuOpts = criuOpts\<lparr>ImagesDirFd := Some imagesDir\<rparr> in
     andThen (if CheckpointOptions.PreDump opts then
                andThen (log InfoLevel ''Performing pre-dump...'') (\<lambda>_.
                let preDumpOpts = criuOpts
                      \<lparr>CriuOpts.TrackMem := Some (CheckpointOptions.TrackMem opts),
                       CriuOpts.TcpEstablished := Some False\<rparr> in
                andThen (extern (\<lambda>w. criu_PreDump E w preDumpOpts) (CriuPreDump preDumpOpts)) (\<lambda>err.
                case err of
                  Some e \<Rightarrow> fail (Err (''pre-dump failed: '' @ e))
                | None \<Rightarrow> ok ()))
              else ok ()) (\<lambda>_.
     andThen (log InfoLevel ''Performing checkpoint...'') (\<lambda>_.
     andThen (extern (\<lambda>w. criu_Dump E w criuOpts) (CriuDump criuOpts)) (\<lambda>err.
     case err of
       Some e \<Rightarrow>
         andThen (logCRIUError (CheckpointOptions.LogFile opts)) (\<lambda>_.
         andThen (log WarnLevel (''go-criu library failed, trying command-line fallback: '' @ e)) (\<lambda>_.
         andThen (attempt (CheckpointProcessCmd E pid opts)) (\<lambda>r.
         case r of
           Inl cmdErr \<Rightarrow>
             fail (Err (''both go-criu and command-line CRIU failed.\<newline>Library error: '' @ e @
                        ''\<newline>Command error: '' @ cmdErr))
         | Inr _ \<Rightarrow>
             andThen (log InfoLevel ''CRIU checkpoint completed successfully via command-line'') (\<lambda>_.
             ok ()))))
     | None \<Rightarrow>
         andThen (log InfoLevel ''CRIU checkpoint completed successfully'') (\<lambda>_.
         ok ())))))))))"

text \<open>\<open>RestoreProcess\<close> (criu.go): the library call only, no command-line fallback.
  \<open>%v\<close> of a string slice prints its elements between brackets, separated by blanks.\<close>

definition RestoreProcess :: "env \<Rightarrow> RestoreOptions \<Rightarrow> unit prog" where
  "RestoreProcess E opts =
     andThen (log InfoLevel ''Starting CRIU restore'') (\<lambda>_.
     andThen (wrap ''failed to create work directory: ''
                (on_host (\<lambda>h. EnsureDir h (RestoreOptions.WorkDir opts)))) (\<lambda>_.
     andThen (read_host (\<lambda>h. DirExists h (RestoreOptions.ImagesDir opts))) (\<lambda>exists.
     if \<not> exists then
       fail (Err (''images directory does not exist: '' @ RestoreOptions.ImagesDir opts))
     else
     let criuOpts = CriuOpts_zero
           \<lparr>CriuOpts.LogLevel := Some (int32 (RestoreOptions.LogLevel opts)),
            CriuOpts.LogFile := Some (RestoreOptions.LogFile opts),
            CriuOpts.ManageCgroups := Some (RestoreOptions.ManageCgroups opts),
            CriuOpts.TcpEstablished := Some (RestoreOptions.TcpEstablished opts),
            RstSibling := Some (RestoreOptions.RestoreSibling opts),
            ShellJob := Some (RestoreOptions.Shell opts),
            CriuOpts.External := RestoreOptions.External opts,
            CriuOpts.EmptyNs := Some (RestoreOptions.EmptyNs opts)\<rparr> in
     andThen (read_host (\<lambda>h. case os_Open h (RestoreOptions.ImagesDir opts) of
                Inl err \<Rightarrow> Inl (Err (''failed to open images directory: '' @ os_Msg err))
              | Inr fd \<Rightarrow> Inr fd)) (\<lambda>workDir.
     let criuOpts = criuOpts\<lparr>ImagesDirFd := Some workDir\<rparr> in
     andThen (if length (ExtMountMap opts) > 0 then
                andThen (log InfoLevel (''Using external mount mappings: ['' @
                                        strings_Join (ExtMountMap opts) '' '' @ '']'')) (\<lambda>_.
                ok (criuOpts\<lparr>CriuOpts.External := CriuOpts.External criuOpts @ ExtMountMap opts\<rparr>))
              else ok criuOpts) (\<lambda>criuOpts.
     andThen (log InfoLevel ''Performing restore...'') (\<lambda>_.
     andThen (extern (\<lambda>w. criu_Restore E w criuOpts) (CriuRestore criuOpts)) (\<lambda>err.
     case err of
       Some e \<Rightarrow>
         andThen (logCRIUError (RestoreOptions.LogFile opts)) (\<lambda>_.
         fail (Err (''CRIU restore failed: '' @ e)))
     | None \<Rightarrow>
         andThen (log InfoLevel ''CRIU restore completed successfully'') (\<lambda>_.
         ok ()))))))))"


text \<open>\<open>CreateExtMountMapFile\<close> (criu.go).  The standard mappings are a Go map and
  \<open>range\<close> visits its entries in an order the language leaves open; they are taken in
  the order of the literal.\<close>

fun CreateExtMountMapFile_mappings :: "MountMapping list \<Rightarrow> string \<Rightarrow> string" where
  "CreateExtMountMapFile_mappings [] content = content"
| "CreateExtMountMapFile_mappings (mapping # rest) content =
     (if IsExternal mapping \<and> HostPath mapping \<noteq> ''''
      then CreateExtMountMapFile_mappings rest
             (content @ ContainerPath mapping @ '':'' @ HostPath mapping @ ''\<newline>'')
      else CreateExtMountMapFile_mappings rest content)"

definition standardMappings :: "(string \<times> string) list" where
  "standardMappings =
     [(''/proc'', ''/proc''),
      (''/sys'', ''/sys''),
      (''/dev'', ''/dev''),
      (''/dev/shm'', ''/dev/shm''),
      (''/dev/pts'', ''/dev/pts''),
      (''/dev/mqueue'', ''/dev/mqueue''),
      (''/sys/fs/cgroup'', ''/sys/fs/cgroup'')]"

fun CreateExtMountMapFile_standard :: "(string \<times> string) list \<Rightarrow> string \<Rightarrow> string" where
  "CreateExtMountMapFile_standard [] content = content"
| "CreateExtMountMapFile_standard ((containerPath, hostPath) # rest) content =
     CreateExtMountMapFile_standard rest (content @ containerPath @ '':'' @ hostPath @ ''\<newline>'')"

definition CreateExtMountMapFile :: "MountMapping list \<Rightarrow> string \<Rightarrow> unit prog" where
  "CreateExtMountMapFile mappings filePath =
     (let content = ''# External mount map for Docker container restore\<newline>'';
          content = content @ ''# Format: container_path:host_path\<newline>'';
          content = CreateExtMountMapFile_mappings mappings content;
          content = CreateExtMountMapFile_standard standardMappings content
      in on_host (\<lambda>h. WriteFile h filePath content))"

section \<open>pkg/checkpoint: the checkpoint manager\<close>

definition requiredFiles :: "string list" where
  "requiredFiles =
     [''container_metadata.json'',
      ''mount_mappings.json'',
      ''checkpoint_metadata.json'',
      ''images'']"

fun ValidateCheckpoint_loop :: "string \<Rightarrow> string list \<Rightarrow> unit prog" where
  "ValidateCheckpoint_loop checkpointDir [] = ok ()"
| "ValidateCheckpoint_loop checkpointDir (file # rest) =
     (let filePath = filepath_Join checkpointDir file in
      andThen
        (if file = ''images'' then
           andThen (read_host (\<lambda>h. DirExists h filePath)) (\<lambda>exists.
           if \<not> exists then fail (Err (''missing required directory: '' @ file)) else ok ())
         else
           andThen (read_host (\<lambda>h. Inr (FileExists h filePath))) (\<lambda>exists.
           if \<not> exists then fail (Err (''missing required file: '' @ file)) else ok ()))
        (\<lambda>_. ValidateCheckpoint_loop checkpointDir rest))"

definition ValidateCheckpoint :: "string \<Rightarrow> unit prog" where
  "ValidateCheckpoint checkpointDir =
     andThen (read_host (\<lambda>h. DirExists h checkpointDir)) (\<lambda>exists.
     if \<not> exists then
       fail (Err (''checkpoint directory does not exist: '' @ checkpointDir))
     else
     andThen (ValidateCheckpoint_loop checkpointDir requiredFiles) (\<lambda>_.
     let imagesDir = filepath_Join checkpointDir ''images'' in
     andThen (wrap ''failed to list images directory: ''
                (read_host (\<lambda>h. ListFiles h imagesDir))) (\<lambda>files.
     if length files = 0 then
       fail (Err ''checkpoint images directory is empty'')
     else
     andThen (log InfoLevel (''Checkpoint validation successful: '' @
                             Sprintf_d (int (length files)) @ '' image files found'')) (\<lambda>_.
     ok ()))))"

text \<open>\<open>json.Unmarshal(data, &v)\<close> for a fresh \<open>v\<close>: parse the text, then decode the
  document into the zero value.\<close>

definition Unmarshal ::
  "json_lib \<Rightarrow> (json \<Rightarrow> 'a \<Rightarrow> string + 'a) \<Rightarrow> string \<Rightarrow> 'a \<Rightarrow> string + 'a" where
  "Unmarshal J dec bytes zero = bindE (Unmarshal_text J bytes) (\<lambda>j. dec j zero)"

definition GetCheckpointInfo :: "json_lib \<Rightarrow> string \<Rightarrow> CheckpointMetadata prog" where
  "GetCheckpointInfo J checkpointDir =
     (let metadataPath = filepath_Join checkpointDir ''checkpoint_metadata.json'' in
      andThen (read_host (\<lambda>h. Inr (FileExists h metadataPath))) (\<lambda>exists.
      if \<not> exists then
        fail (Err (''checkpoint metadata file not found: '' @ metadataPath))
      else
      andThen (wrap ''failed to read checkpoint metadata: ''
                 (read_host (\<lambda>h. ReadFile h metadataPath))) (\<lambda>bytes.
      case Unmarshal J (CheckpointMetadata_of_json J) bytes CheckpointMetadata_zero of
        Inl err \<Rightarrow> fail (Err (''failed to parse checkpoint metadata: '' @ err))
      | Inr metadata \<Rightarrow> ok metadata)))"

definition SaveMountMappings :: "json_lib \<Rightarrow> MountMapping list \<Rightarrow> string \<Rightarrow> unit prog" where
  "SaveMountMappings J mappings filePath =
     (case MarshalIndent_text J (MountMappings_to_json mappings) of
        Inl err \<Rightarrow> fail (Err (''failed to marshal mount mappings: '' @ err))
      | Inr bytes \<Rightarrow> on_host (\<lambda>h. WriteFile h filePath bytes))"

definition LoadMountMappings :: "json_lib \<Rightarrow> string \<Rightarrow> MountMapping list prog" where
  "LoadMountMappings J filePath =
     andThen (read_host (\<lambda>h. Inr (FileExists h filePath))) (\<lambda>exists.
     if \<not> exists then
       fail (Err (''mount mappings file not found: '' @ filePath))
     else
     andThen (wrap ''failed to read mount mappings: ''
                (read_host (\<lambda>h. ReadFile h filePath))) (\<lambda>bytes.
     case Unmarshal J MountMappings_of_json bytes [] of
       Inl err \<Rightarrow> fail (Err (''failed to parse mount mappings: '' @ err))
     | Inr mappings \<Rightarrow> ok mappings))"

section \<open>pkg/docker/manager.go\<close>

text \<open>\<open>strings.SplitN(env, "=", 2)\<close> has two parts exactly when \<open>env\<close> contains \<open>=\<close>:
  the text before the first one and the text after it.\<close>

primrec GetContainerState_envMap :: "string list \<Rightarrow> (string, string) fmap \<Rightarrow> (string, string) fmap" where
  "GetContainerState_envMap [] envMap = envMap"
| "GetContainerState_envMap (env # rest) envMap =
     (case dropWhile (\<lambda>c. c \<noteq> CHR ''='') env of
        [] \<Rightarrow> GetContainerState_envMap rest envMap
      | sep # val \<Rightarrow>
          GetContainerState_envMap rest
            (fmupd (takeWhile (\<lambda>c. c \<noteq> CHR ''='') env) val envMap))"

primrec GetContainerState_namespaces ::
  "int \<Rightarrow> string list \<Rightarrow> (string, string) fmap \<Rightarrow> (string, string) fmap" where
  "GetContainerState_namespaces pid [] namespaces = namespaces"
| "GetContainerState_namespaces pid (ns # rest) namespaces =
     GetContainerState_namespaces pid rest
       (fmupd ns (''/proc/'' @ Sprintf_d pid @ ''/ns/'' @ ns) namespaces)"

definition GetContainerState :: "env \<Rightarrow> string \<Rightarrow> ContainerState prog" where
  "GetContainerState E nameOrID =
     andThen (extern (\<lambda>w. docker_ContainerInspect E w nameOrID) (ContainerInspect nameOrID)) (\<lambda>res.
     case res of
       Inl err \<Rightarrow> fail (Err (''failed to inspect container: '' @ err))
     | Inr containerJSON \<Rightarrow>
     andThen (lift (deref (State containerJSON))) (\<lambda>state.
     if \<not> Running state then
       fail (Err (''container '' @ nameOrID @ '' is not running''))
     else
     andThen (lift (deref (ContainerJSON.HostConfig containerJSON))) (\<lambda>hostConfig.
     let runtime = HostConfig.Runtime hostConfig;
         runtime = (if runtime = '''' then ''runc'' else runtime) in
     andThen (lift (deref (ContainerJSON.Config containerJSON))) (\<lambda>config.
     let envMap = GetContainerState_envMap (Env config) fmempty;
         labelMap = Config.Labels config in
     andThen (\<lambda>w. (Inr (case time_Parse E (ContainerJSON.Created containerJSON) of
                          Inl err \<Rightarrow> time_Now E w
                        | Inr t \<Rightarrow> t), w)) (\<lambda>createdTime.
     andThen (lift (deref (NetworkSettings containerJSON))) (\<lambda>networkSettings.
     let state =
           \<lparr>ContainerState.ID = ContainerJSON.ID containerJSON,
            ContainerState.Name = TrimPrefix (ContainerJSON.Name containerJSON) ''/'',
            ContainerState.Image = Config.Image config,
            ContainerState.Config = ContainerJSON.Config containerJSON,
            ContainerState.HostConfig = ContainerJSON.HostConfig containerJSON,
            NetworkConfig = Networks networkSettings,
            ContainerState.Mounts = ContainerJSON.Mounts containerJSON,
            ProcessPID = InspectState.Pid state,
            ContainerState.Created = createdTime,
            RootFS = (case fmlookup (Data (GraphDriver containerJSON)) ''MergedDir'' of
                        None \<Rightarrow> '''' | Some dir \<Rightarrow> dir),
            ContainerState.Runtime = runtime,
            BundlePath = ''/run/docker/runtime-'' @ runtime @ ''/moby/'' @ ContainerJSON.ID containerJSON,
            CgroupPath = CgroupParent (Resources hostConfig),
            Namespaces = fmempty,
            Environment = envMap,
            ContainerState.Labels = labelMap\<rparr>;
         nsTypes = [''ipc'', ''mnt'', ''net'', ''pid'', ''user'', ''uts'', ''cgroup''] in
     ok (state\<lparr>Namespaces := GetContainerState_namespaces (ProcessPID state) nsTypes (Namespaces state)\<rparr>)))))))"

text \<open>\<open>CreateRestoreContainer\<close>.  The members of the two structures that the composite
  literals do not mention have their zero values.\<close>

definition CreateRestoreContainer :: "env \<Rightarrow> ContainerState option \<Rightarrow> string \<Rightarrow> string prog" where
  "CreateRestoreContainer E originalState newName =
     andThen (lift (deref originalState)) (\<lambda>original.
     andThen (lift (deref (ContainerState.Config original))) (\<lambda>originalConfig.
     let config =
           \<lparr>User = User originalConfig,
            ExposedPorts = ExposedPorts originalConfig,
            Tty = Tty originalConfig,
            OpenStdin = OpenStdin originalConfig,
            StdinOnce = StdinOnce originalConfig,
            Env = Env originalConfig,
            Cmd = Cmd originalConfig,
            Config.Image = ContainerState.Image original,
            WorkingDir = WorkingDir originalConfig,
            Entrypoint = Entrypoint originalConfig,
            Config.Labels = Config.Labels originalConfig\<rparr> in
     andThen (lift (deref (ContainerState.HostConfig original))) (\<lambda>originalHostConfig.
     let hostConfig =
           \<lparr>Binds = [],
            NetworkMode = ''host'',
            PortBindings = fmempty,
            HostConfig.RestartPolicy = HostConfig.RestartPolicy originalHostConfig,
            CapAdd = [''SYS_PTRACE'', ''SYS_ADMIN''],
            CapDrop = [],
            IpcMode = ''host'',
            PidMode = ''host'',
            Privileged = True,
            ReadonlyRootfs = False,
            SecurityOpt = [''seccomp=unconfined''],
            HostConfig.Runtime = '''',
            HostConfig.Resources = HostConfig.Resources originalHostConfig\<rparr> in
     andThen (extern (\<lambda>w. docker_ContainerCreate E w config hostConfig newName)
                (ContainerCreate config hostConfig newName)) (\<lambda>res.
     case res of
       Inl err \<Rightarrow> fail (Err (''failed to create restore container: '' @ err))
     | Inr respID \<Rightarrow>
     andThen (lift (slice_to respID 12)) (\<lambda>shortID.
     andThen (log InfoLevel (''Created restore container: '' @ shortID)) (\<lambda>_.
     ok respID))))))"

definition GetContainerPID :: "env \<Rightarrow> string \<Rightarrow> int prog" where
  "GetContainerPID E containerID =
     andThen (extern (\<lambda>w. docker_ContainerInspect E w containerID) (ContainerInspect containerID)) (\<lambda>res.
     case res of
       Inl err \<Rightarrow> fail (Err (''failed to inspect container: '' @ err))
     | Inr containerJSON \<Rightarrow>
     andThen (lift (deref (State containerJSON))) (\<lambda>state.
     if InspectState.Pid state = 0 then
       fail (Err ''container has no PID (not running)'')
     else ok (InspectState.Pid state)))"

definition StartContainer :: "env \<Rightarrow> string \<Rightarrow> unit prog" where
  "StartContainer E containerID =
     andThen (extern (\<lambda>w. docker_ContainerStart E w containerID) (ContainerStart containerID)) (\<lambda>err.
     case err of
       Some e \<Rightarrow> fail (Err (''failed to start container: '' @ e))
     | None \<Rightarrow> ok ())"

definition StopContainer :: "env \<Rightarrow> string \<Rightarrow> int option \<Rightarrow> unit prog" where
  "StopContainer E containerID timeout =
     andThen (extern (\<lambda>w. docker_ContainerStop E w containerID timeout)
                (ContainerStop containerID timeout)) (\<lambda>err.
     case err of
       Some e \<Rightarrow> fail (Err (''failed to stop container: '' @ e))
     | None \<Rightarrow> ok ())"

text \<open>\<open>GetContainerLogs\<close> returns what the first \<open>Read\<close> into a buffer of 4096 bytes
  delivers.\<close>

definition GetContainerLogs :: "env \<Rightarrow> string \<Rightarrow> string \<Rightarrow> string prog" where
  "GetContainerLogs E containerID tail =
     andThen (extern (\<lambda>w. docker_ContainerLogs E w containerID tail)
                (ContainerLogs containerID tail)) (\<lambda>res.
     case res of
       Inl err \<Rightarrow> fail (Err (''failed to get container logs: '' @ err))
     | Inr logs \<Rightarrow> ok (take 4096 logs))"

text \<open>\<open>SaveContainerMetadata\<close> and \<open>LoadContainerMetadata\<close>.  The state is passed by
  pointer; a nil pointer is marshalled as \<open>null\<close>.\<close>

definition SaveContainerMetadata :: "json_lib \<Rightarrow> ContainerState option \<Rightarrow> string \<Rightarrow> unit prog" where
  "SaveContainerMetadata J state filePath =
     (case MarshalIndent_text J (ptr_to_json (ContainerState_to_json J) state) of
        Inl err \<Rightarrow> fail (Err (''failed to marshal container metadata: '' @ err))
      | Inr bytes \<Rightarrow>
          wrap ''failed to write metadata file: '' (on_host (\<lambda>h. WriteFile h filePath bytes)))"

definition LoadContainerMetadata :: "json_lib \<Rightarrow> string \<Rightarrow> ContainerState prog" where
  "LoadContainerMetadata J filePath =
     andThen (wrap ''failed to read metadata file: ''
                (read_host (\<lambda>h. ReadFile h filePath))) (\<lambda>bytes.
     case Unmarshal J (ContainerState_of_json J) bytes ContainerState_zero of
       Inl err \<Rightarrow> fail (Err (''failed to unmarshal container metadata: '' @ err))
     | Inr state \<Rightarrow> ok state)"

section \<open>pkg/restore\<close>

fun prepareMountNamespace_loop :: "MountMapping list \<Rightarrow> bool \<Rightarrow> unit prog" where
  "prepareMountNamespace_loop [] autoFix = ok ()"
| "prepareMountNamespace_loop (mapping # rest) autoFix =
     andThen
       (if IsExternal mapping \<and> HostPath mapping \<noteq> '''' then
          andThen (read_host (\<lambda>h. not_FileExists_and_not_DirExists h (HostPath mapping))) (\<lambda>missing.
          if missing then
            (if autoFix then
               andThen (log InfoLevel (''Creating missing mount source: '' @ HostPath mapping)) (\<lambda>_.
               wrap (''failed to create mount source '' @ HostPath mapping @ '': '')
                 (on_host (\<lambda>h. EnsureDir h (HostPath mapping))))
             else log WarnLevel (''Mount source does not exist: '' @ HostPath mapping))
          else ok ())
        else ok ())
       (\<lambda>_. prepareMountNamespace_loop rest autoFix)"

definition prepareMountNamespace :: "string \<Rightarrow> MountMapping list \<Rightarrow> bool \<Rightarrow> unit prog" where
  "prepareMountNamespace containerID mappings autoFix =
     andThen (log InfoLevel ''Preparing mount namespace for restore'') (\<lambda>_.
     prepareMountNamespace_loop mappings autoFix)"

definition checkPtraceConflicts :: "unit prog" where
  "checkPtraceConflicts = ok ()"

fun validateRestoreEnvironment_loop :: "MountMapping list \<Rightarrow> int \<Rightarrow> int prog" where
  "validateRestoreEnvironment_loop [] missingMounts = ok missingMounts"
| "validateRestoreEnvironment_loop (mapping # rest) missingMounts =
     andThen
       (if IsExternal mapping \<and> HostPath mapping \<noteq> '''' then
          andThen (read_host (\<lambda>h. not_FileExists_and_not_DirExists h (HostPath mapping))) (\<lambda>missing.
          if missing then
            andThen (log WarnLevel (''Mount source missing: '' @ ContainerPath mapping @ '' -> '' @
                                    HostPath mapping)) (\<lambda>_.
            ok (missingMounts + 1))
          else ok missingMounts)
        else ok missingMounts)
       (\<lambda>missingMounts. validateRestoreEnvironment_loop rest missingMounts)"

definition validateRestoreEnvironment :: "ContainerState \<Rightarrow> MountMapping list \<Rightarrow> unit prog" where
  "validateRestoreEnvironment originalState mappings =
     andThen (log InfoLevel ''Validating restore environment'') (\<lambda>_.
     andThen (log InfoLevel (''Original image: '' @ ContainerState.Image originalState)) (\<lambda>_.
     andThen (validateRestoreEnvironment_loop mappings 0) (\<lambda>missingMounts.
     andThen (if missingMounts > 0 then
                log WarnLevel (''Found '' @ Sprintf_d missingMounts @ '' missing mount sources'')
              else ok ()) (\<lambda>_.
     wrap ''ptrace conflict detected: '' checkPtraceConflicts))))"

definition verifyRestoration :: "env \<Rightarrow> string \<Rightarrow> unit prog" where
  "verifyRestoration E containerName =
     andThen (log InfoLevel ''Verifying restoration...'') (\<lambda>_.
     andThen (attempt (GetContainerState E containerName)) (\<lambda>res.
     case res of
       Inl err \<Rightarrow>
         andThen (log WarnLevel ''Container not running, checking basic status...'') (\<lambda>_.
         ok ())
     | Inr state \<Rightarrow>
     andThen (log InfoLevel ''Restored container state:'') (\<lambda>_.
     andThen (log InfoLevel (''  Name: '' @ ContainerState.Name state)) (\<lambda>_.
     andThen (lift (slice_to (ContainerState.ID state) 12)) (\<lambda>shortID.
     andThen (log InfoLevel (''  ID: '' @ shortID)) (\<lambda>_.
     andThen (log InfoLevel (''  PID: '' @ Sprintf_d (ProcessPID state))) (\<lambda>_.
     andThen (log InfoLevel (''  Image: '' @ ContainerState.Image state)) (\<lambda>_.
     andThen (attempt (GetContainerLogs E (ContainerState.ID state) ''10'')) (\<lambda>res.
     andThen (case res of
                Inr logs \<Rightarrow>
                  if logs \<noteq> '''' then log InfoLevel (''Recent container logs:\<newline>'' @ logs)
                  else ok ()
              | Inl err \<Rightarrow> ok ()) (\<lambda>_.
     ok ()))))))))))"

definition Restore :: "env \<Rightarrow> RestoreConfig \<Rightarrow> unit prog" where
  "Restore E config =
     andThen (log InfoLevel (''Starting restore from checkpoint: '' @ CheckpointDir config)) (\<lambda>_.
     andThen (wrap ''checkpoint validation failed: '' (ValidateCheckpoint (CheckpointDir config))) (\<lambda>_.
     andThen (wrap ''failed to load checkpoint metadata: ''
                (GetCheckpointInfo (json E) (CheckpointDir config))) (\<lambda>metadata.
     let originalState = CheckpointMetadata.ContainerState metadata in
     andThen (lift (deref originalState)) (\<lambda>original.
     andThen (lift (slice_to (ContainerState.ID original) 12)) (\<lambda>shortID.
     andThen (log InfoLevel (''Original container: '' @ ContainerState.Name original @
                             '' (ID: '' @ shortID @ '')'')) (\<lambda>_.
     let mountMappingsFile = filepath_Join (CheckpointDir config) ''mount_mappings.json'' in
     andThen (wrap ''failed to load mount mappings: ''
                (LoadMountMappings (json E) mountMappingsFile)) (\<lambda>mountMappings.
     andThen (if ValidateEnv config then
                wrap ''restore environment validation failed: ''
                  (validateRestoreEnvironment original mountMappings)
              else ok ()) (\<lambda>_.
     andThen (wrap ''failed to create restore container: ''
                (CreateRestoreContainer E originalState (NewContainerName config))) (\<lambda>containerID.
     andThen (lift (slice_to containerID 12)) (\<lambda>shortID.
     andThen (log InfoLevel (''Created restore container: '' @ shortID)) (\<lambda>_.
     andThen (wrap ''failed to prepare mount namespace: ''
                (prepareMountNamespace containerID mountMappings (AutoFixMounts config))) (\<lambda>_.
     andThen (wrap ''failed to start restore container: '' (StartContainer E containerID)) (\<lambda>_.
     andThen (wrap ''failed to get container PID: '' (GetContainerPID E containerID)) (\<lambda>newPID.
     andThen (log InfoLevel (''Restore target PID: '' @ Sprintf_d newPID)) (\<lambda>_.
     let timeout = 5 in
     andThen (attempt (StopContainer E containerID (Some timeout))) (\<lambda>res.
     andThen (case res of
                Inl err \<Rightarrow> log WarnLevel (''Failed to gracefully stop container, continuing: '' @ err)
              | Inr _ \<Rightarrow> ok ()) (\<lambda>_.
     let imagesDir = filepath_Join (CheckpointDir config) ''images'';
         extMountMapFile = filepath_Join (CheckpointDir config) ''ext_mount_map'' in
     andThen (wrap ''failed to create external mount map: ''
                (CreateExtMountMapFile mountMappings extMountMapFile)) (\<lambda>_.
     let criuOpts =
           \<lparr>RestoreOptions.WorkDir = CheckpointDir config,
            RestoreOptions.ImagesDir = imagesDir,
            RestoreOptions.LogFile = filepath_Join (CheckpointDir config) ''restore.log'',
            RestoreOptions.LogLevel = RestoreConfig.LogLevel config,
            RestoreOptions.External = buildExternalMountArgs mountMappings (SkipMounts config),
            ExtMountMap = BuildExtMountMapArgs mountMappings,
            SkipMnt = SkipMounts config,
            PidFile = '''',
            RestoreOptions.ManageCgroups = RestoreConfig.ManageCgroups config,
            RestoreOptions.TcpEstablished = RestoreConfig.TcpEstablished config,
            RestoreOptions.RestoreSibling = RestoreConfig.RestoreSibling config,
            RestoreOptions.Shell = RestoreConfig.Shell config,
            RestoreOptions.EmptyNs = 64\<rparr> in
     andThen (wrap ''CRIU restore failed: '' (RestoreProcess E criuOpts)) (\<lambda>_.
     andThen (attempt (verifyRestoration E (NewContainerName config))) (\<lambda>res.
     case res of
       Inl err \<Rightarrow>
         andThen (log WarnLevel (''Restoration verification failed: '' @ err)) (\<lambda>_.
         fail (Err (''restore verification failed: '' @ err)))
     | Inr _ \<Rightarrow>
         andThen (log InfoLevel (''Container restored successfully as: '' @ NewContainerName config)) (\<lambda>_.
         ok ())))))))))))))))))))))"

section \<open>Vocabulary for statements about traces\<close>

text \<open>The events that a run adds to the trace, and among them the attempts to dump:
  the library call \<open>Dump\<close> and the execution of the \<open>criu\<close> binary.\<close>

definition new_events :: "world \<Rightarrow> world \<Rightarrow> event list" where
  "new_events w w' = drop (length (trace w)) (trace w')"

fun is_dump_attempt :: "event \<Rightarrow> bool" where
  "is_dump_attempt (CriuDump opts err) = True"
| "is_dump_attempt (ExecCriu dir args res) = True"
| "is_dump_attempt ev = False"

text \<open>\<open>traces m P\<close>: every run of \<open>m\<close> only appends to the trace, and the result and
  the appended events are related by \<open>P\<close>.\<close>

definition traces :: "'a prog \<Rightarrow> ('a result \<Rightarrow> event list \<Rightarrow> bool) \<Rightarrow> bool" where
  "traces m P =
     (\<forall>w r w'. m w = (r, w') \<longrightarrow> trace w' = trace w @ new_events w w' \<and> P r (new_events w w'))"

text \<open>\<open>emits Q m\<close>: every event that a run of \<open>m\<close> adds satisfies \<open>Q\<close>.\<close>

abbreviation emits :: "(event \<Rightarrow> bool) \<Rightarrow> 'a prog \<Rightarrow> bool" where
  "emits Q m \<equiv> traces m (\<lambda>r new. list_all Q new)"

text \<open>A successful call of the engine's library restore.\<close>

fun engine_restore_succeeded :: "event \<Rightarrow> bool" where
  "engine_restore_succeeded (CriuRestore opts None) = True"
| "engine_restore_succeeded ev = False"

text \<open>What the Docker client hands back from a successful inspect call: the sections
  that the program dereferences are present, and the id has at least the twelve
  characters that the program prints (the runtime's ids have 64).\<close>

definition inspect_wellformed :: "ContainerJSON \<Rightarrow> bool" where
  "inspect_wellformed containerJSON =
     (State containerJSON \<noteq> None \<and>
      ContainerJSON.HostConfig containerJSON \<noteq> None \<and>
      ContainerJSON.Config containerJSON \<noteq> None \<and>
      NetworkSettings containerJSON \<noteq> None \<and>
      12 \<le> length (ContainerJSON.ID containerJSON))"

text \<open>The host configurations handed to the runtime's create call, in order.\<close>

fun created_hostConfigs :: "event list \<Rightarrow> HostConfig list" where
  "created_hostConfigs [] = []"
| "created_hostConfigs (ContainerCreate config hostConfig name res # evs) =
     hostConfig # created_hostConfigs evs"
| "created_hostConfigs (ev # evs) = created_hostConfigs evs"

section \<open>A concrete environment\<close>

text \<open>
  The theorems below hold for every environment.  They are instantiated on this one: a
  JSON library that fails on every text, a runtime that knows no container and refuses
  to create one, and an engine whose library calls and binary all fail.  Single answers
  are replaced where an instance needs another one.
\<close>

definition failing_json :: json_lib where
  "failing_json =
     \<lparr>MarshalIndent_text = (\<lambda>j. Inl ''json: unsupported value''),
      Unmarshal_text = (\<lambda>bytes. Inl ''unexpected end of JSON input''),
      enc_Config = (\<lambda>c. JNull),
      dec_Config = (\<lambda>j. Inl ''json: cannot unmarshal into Go value of type container.Config''),
      enc_HostConfig = (\<lambda>c. JNull),
      dec_HostConfig = (\<lambda>j. Inl ''json: cannot unmarshal into Go value of type container.HostConfig''),
      enc_EndpointSettings = (\<lambda>c. JNull),
      dec_EndpointSettings = (\<lambda>j. Inl ''json: cannot unmarshal into Go value of type network.EndpointSettings''),
      enc_MountPoint = (\<lambda>c. JNull),
      dec_MountPoint = (\<lambda>j. Inl ''json: cannot unmarshal into Go value of type types.MountPoint''),
      enc_Time = (\<lambda>t. JNull),
      dec_Time = (\<lambda>j. Inl ''parsing time: cannot parse'')\<rparr>"

definition failing_env :: env where
  "failing_env =
     \<lparr>json = failing_json,
      docker_ContainerInspect = (\<lambda>w nameOrID. (Inl (''No such container: '' @ nameOrID), hostfs w)),
      docker_ContainerCreate = (\<lambda>w config hostConfig name. (Inl ''No such image'', hostfs w)),
      docker_ContainerStart = (\<lambda>w containerID. (Some (''No such container: '' @ containerID), hostfs w)),
      docker_ContainerStop = (\<lambda>w containerID timeout. (Some (''No such container: '' @ containerID), hostfs w)),
      docker_ContainerLogs = (\<lambda>w containerID tail. (Inl (''No such container: '' @ containerID), hostfs w)),
      criu_PreDump = (\<lambda>w opts. (Some ''pre-dump failed: exit status 1'', hostfs w)),
      criu_Dump = (\<lambda>w opts. (Some ''operation failed (msg:Error (criu/cr-dump.c) errno:0)'', hostfs w)),
      criu_Restore = (\<lambda>w opts. (Some ''operation failed (msg:Error (criu/cr-restore.c) errno:0)'', hostfs w)),
      exec_criu = (\<lambda>w dir args. ((Some ''exit status 1'', ''Error (criu/cr-dump.c): Dumping FAILED.''), hostfs w)),
      time_Parse = (\<lambda>s. Inl ''parsing time: cannot parse''),
      time_Now = (\<lambda>w. UnixNano 0)\<rparr>"

text \<open>
  A second environment, for a restore that goes through: a checkpoint directory with its
  four artifacts, a JSON library that reads the two documents stored there, a runtime
  that creates, starts, inspects and stops the container \<open>9a8b7c6d5e4f3a2b\<close> but knows no
  container by another name, and an engine whose library restore succeeds.
\<close>

definition example_Config :: Config where
  "example_Config =
     \<lparr>User = '''', ExposedPorts = {}, Tty = False, OpenStdin = False, StdinOnce = False,
      Env = [''PATH=/usr/bin''], Cmd = [''sleep'', ''1000''], Config.Image = ''alpine'',
      WorkingDir = '''', Entrypoint = [], Config.Labels = fmempty\<rparr>"

definition example_HostConfig :: HostConfig where
  "example_HostConfig =
     \<lparr>Binds = [''/srv/data:/data''], NetworkMode = ''bridge'', PortBindings = fmempty,
      HostConfig.RestartPolicy = \<lparr>RestartPolicy.Name = ''always'', MaximumRetryCount = 0\<rparr>,
      CapAdd = [], CapDrop = [''NET_RAW''], IpcMode = ''private'', PidMode = '''',
      Privileged = False, ReadonlyRootfs = True, SecurityOpt = [''no-new-privileges''],
      HostConfig.Runtime = ''runc'',
      HostConfig.Resources = \<lparr>CPUShares = 512, Memory = 268435456, CgroupParent = '''',
                               Devices = []\<rparr>\<rparr>"

definition example_metadata :: json where
  "example_metadata =
     JObject
       [(''container_state'',
         JObject
           [(''id'', JString ''4f1a2b3c4d5e6f70''),
            (''name'', JString ''c1''),
            (''image'', JString ''alpine''),
            (''config'', JObject []),
            (''host_config'', JObject [])])]"

definition example_json :: json_lib where
  "example_json =
     failing_json
       \<lparr>Unmarshal_text :=
          (\<lambda>bytes. if bytes = ''[]'' then Inr (JArray [])
                   else if bytes = ''{container_state: c1}'' then Inr example_metadata
                   else Inl ''invalid character''),
        dec_Config := (\<lambda>j. Inr example_Config),
        dec_HostConfig := (\<lambda>j. Inr example_HostConfig)\<rparr>"

definition example_checkpoint :: host where
  "example_checkpoint =
     \<lparr>fs = (\<lambda>p. Absent)
         (''/out/c1/cp'' := Dir [],
          ''/out/c1/cp/container_metadata.json'' := File ''{}'',
          ''/out/c1/cp/mount_mappings.json'' := File ''[]'',
          ''/out/c1/cp/checkpoint_metadata.json'' := File ''{container_state: c1}'',
          ''/out/c1/cp/images'' := Dir [Dirent ''core-4242.img'' (Some \<lparr>IsDir = False, Size = 812\<rparr>)]),
      refuse = (\<lambda>p. None)\<rparr>"

definition example_inspect :: ContainerJSON where
  "example_inspect =
     \<lparr>ContainerJSON.ID = ''9a8b7c6d5e4f3a2b'', ContainerJSON.Created = '''',
      State = Some \<lparr>Running = True, InspectState.Pid = 5150\<rparr>,
      ContainerJSON.Name = ''/c1-restored'',
      ContainerJSON.HostConfig = Some example_HostConfig,
      GraphDriver = \<lparr>Data = fmempty\<rparr>,
      ContainerJSON.Mounts = [],
      ContainerJSON.Config = Some example_Config,
      NetworkSettings = Some \<lparr>Networks = fmempty\<rparr>\<rparr>"

definition restoring_env :: env where
  "restoring_env =
     failing_env
       \<lparr>json := example_json,
        docker_ContainerInspect :=
          (\<lambda>w nameOrID. (if nameOrID = ''9a8b7c6d5e4f3a2b'' then Inr example_inspect
                          else Inl (''No such container: '' @ nameOrID), hostfs w)),
        docker_ContainerCreate := (\<lambda>w config hostConfig name. (Inr ''9a8b7c6d5e4f3a2b'', hostfs w)),
        docker_ContainerStart := (\<lambda>w containerID. (None, hostfs w)),
        docker_ContainerStop := (\<lambda>w containerID timeout. (None, hostfs w)),
        criu_Restore := (\<lambda>w opts. (None, hostfs w))\<rparr>"

definition example_RestoreConfig :: RestoreConfig where
  "example_RestoreConfig =
     \<lparr>CheckpointDir = ''/out/c1/cp'', NewContainerName = ''c1-restored'',
      RestoreConfig.LogLevel = 4, RestoreConfig.ManageCgroups = False,
      RestoreConfig.TcpEstablished = False, RestoreConfig.RestoreSibling = False,
      RestoreConfig.Shell = True, ValidateEnv = True, AutoFixMounts = True, SkipMounts = []\<rparr>"

text \<open>The state of a container that was started with \<open>--device /dev/fuse\<close>.\<close>

definition example_state :: ContainerState where
  "example_state =
     ContainerState_zero
       \<lparr>ContainerState.ID := ''4f1a2b3c4d5e6f70'',
        ContainerState.Name := ''c1'',
        ContainerState.Image := ''alpine'',
        ContainerState.Config := Some example_Config,
        ContainerState.HostConfig :=
          Some (example_HostConfig
                  \<lparr>HostConfig.Resources :=
                     \<lparr>CPUShares = 512, Memory = 268435456, CgroupParent = '''',
                      Devices = [\<lparr>PathOnHost = ''/dev/fuse'', PathInContainer = ''/dev/fuse'',
                                  CgroupPermissions = ''rwm''\<rparr>]\<rparr>\<rparr>)\<rparr>"

section \<open>Properties of the pure builders\<close>

lemma BuildExternalMountMappings_loop_eq:
  "BuildExternalMountMappings_loop ms acc =
     acc @ map (\<lambda>m. ''mnt['' @ ContainerPath m @ '']'')
       (filter (\<lambda>m. IsExternal m \<and> HostPath m \<noteq> '''' \<and>
                    \<not> prefix ''/proc'' (ContainerPath m) \<and>
                    \<not> prefix ''/sys'' (ContainerPath m) \<and>
                    \<not> prefix ''/dev'' (ContainerPath m)) ms)"
  by (induction ms arbitrary: acc) (simp_all add: HasPrefix_def)

lemma standardMounts_paths:
  "standardMounts = map (\<lambda>p. ''mnt['' @ p @ '']'')
     [''/proc/sys'', ''/proc/sysrq-trigger'', ''/proc/irq'', ''/proc/bus'', ''/sys/fs/cgroup'',
      ''/sys'', ''/dev'', ''.dockerenv'', ''/etc/hosts'', ''/etc/hostname'', ''/etc/resolv.conf'']"
  by (simp add: standardMounts_def)

lemma mnt_inj: "(''mnt['' @ p @ '']'' = ''mnt['' @ q @ '']'') = (p = q)"
  by simp

lemma distinct_standardMounts: "distinct standardMounts"
  by (simp add: standardMounts_def)

lemma skipMap_loop_eq: "skipMap_loop skips f = (\<lambda>p. f p \<or> p \<in> set skips)"
  by (induction skips arbitrary: f) (auto simp: fun_eq_iff)

lemma buildExternalMountArgs_loop_eq:
  "buildExternalMountArgs_loop sk ms acc =
     acc @ map (\<lambda>m. if HostPath m \<noteq> '''' then ''mnt['' @ ContainerPath m @ '']:'' @ HostPath m
                     else ''mnt:'' @ ContainerPath m)
       (filter (\<lambda>m. IsExternal m \<and> \<not> sk (ContainerPath m)) ms)"
  by (induction ms arbitrary: acc) simp_all

lemma append_each_eq: "append_each xs acc = acc @ xs"
  by (induction xs arbitrary: acc) simp_all

lemma external_args_eq: "external_args xs acc = acc @ concat (map (\<lambda>e. [''--external'', e]) xs)"
  by (induction xs arbitrary: acc) simp_all

section \<open>Properties of \<open>ValidateMountSources\<close>\<close>

lemmas prog_defs = ok_def fail_def andThen_def wrap_def attempt_def log_def read_host_def
  on_host_def extern_def lift_def









section \<open>A calculus for traces\<close>

lemma tracesI:
  assumes "\<And>w r w'. m w = (r, w') \<Longrightarrow> \<exists>new. trace w' = trace w @ new \<and> P r new"
  shows "traces m P"
  unfolding traces_def new_events_def
proof (intro allI impI)
  fix w r w' assume "m w = (r, w')"
  from assms [OF this] obtain new where "trace w' = trace w @ new" "P r new" by blast
  then show "trace w' = trace w @ drop (length (trace w)) (trace w') \<and>
      P r (drop (length (trace w)) (trace w'))" by simp
qed

lemma tracesD:
  assumes "traces m P" "m w = (r, w')"
  shows "trace w' = trace w @ new_events w w'" "P r (new_events w w')"
  using assms unfolding traces_def by blast+

lemma traces_weaken:
  assumes "traces m P'" "\<And>r new. P' r new \<Longrightarrow> P r new"
  shows "traces m P"
  using assms unfolding traces_def by blast

lemma sp_ok: "traces (ok x) (\<lambda>r new. r = Inr x \<and> new = [])"
  by (rule tracesI) (simp add: ok_def)

lemma sp_fail: "traces (fail f) (\<lambda>r new. r = Inl f \<and> new = [])"
  by (rule tracesI) (simp add: fail_def)

lemma sp_log: "traces (log l s) (\<lambda>r new. r = Inr () \<and> new = [Log l s])"
  by (rule tracesI) (auto simp: log_def)

lemma sp_read_host: "traces (read_host f) (\<lambda>r new. new = [] \<and> (\<exists>h. r = f h))"
  by (rule tracesI) (auto simp: read_host_def)

lemma sp_on_host:
  "traces (on_host f)
     (\<lambda>r new. new = [] \<and>
        ((\<exists>h e. f h = Inl e \<and> r = Inl e) \<or> (\<exists>h h'. f h = Inr h' \<and> r = Inr ())))"
  by (rule tracesI) (auto simp: on_host_def split: sum.splits)

lemma sp_extern: "traces (extern call ev) (\<lambda>r new. \<exists>a. r = Inr a \<and> new = [ev a])"
  by (rule tracesI) (auto simp: extern_def split: prod.splits)

lemma sp_andThen:
  assumes "traces m P1" "\<And>x. traces (f x) (P2 x)"
  shows "traces (andThen m f)
           (\<lambda>r new. (\<exists>e. r = Inl e \<and> P1 (Inl e) new) \<or>
                     (\<exists>x new1 new2. new = new1 @ new2 \<and> P1 (Inr x) new1 \<and> P2 x r new2))"
proof (rule tracesI)
  fix w r w' assume run: "andThen m f w = (r, w')"
  obtain r1 w1 where m: "m w = (r1, w1)" by (cases "m w")
  note t1 = tracesD [OF assms(1) m]
  show "\<exists>new. trace w' = trace w @ new \<and>
          ((\<exists>e. r = Inl e \<and> P1 (Inl e) new) \<or>
           (\<exists>x new1 new2. new = new1 @ new2 \<and> P1 (Inr x) new1 \<and> P2 x r new2))"
  proof (cases r1)
    case (Inl e)
    with run m have "r = Inl e" "w' = w1" by (simp_all add: andThen_def)
    with t1 Inl show ?thesis by blast
  next
    case (Inr x)
    with run m have f: "f x w1 = (r, w')" by (simp add: andThen_def)
    note t2 = tracesD [OF assms(2) f]
    from t1 t2 have "trace w' = trace w @ (new_events w w1 @ new_events w1 w')" by simp
    with t1 t2 Inr show ?thesis by blast
  qed
qed

lemma sp_wrap:
  assumes "traces m P"
  shows "traces (wrap c m)
           (\<lambda>r new. (\<exists>e. r = Inl (Err (c @ e)) \<and> P (Inl (Err e)) new) \<or>
                     (\<exists>p. r = Inl (Panic p) \<and> P (Inl (Panic p)) new) \<or>
                     (\<exists>x. r = Inr x \<and> P (Inr x) new))"
proof (rule tracesI)
  fix w r w' assume run: "wrap c m w = (r, w')"
  obtain r1 w1 where m: "m w = (r1, w1)" by (cases "m w")
  note t1 = tracesD [OF assms m]
  from run m have "w' = w1" by (auto simp: wrap_def split: sum.splits failure.splits)
  moreover from run m t1(2) have
    "(\<exists>e. r = Inl (Err (c @ e)) \<and> P (Inl (Err e)) (new_events w w1)) \<or>
     (\<exists>p. r = Inl (Panic p) \<and> P (Inl (Panic p)) (new_events w w1)) \<or>
     (\<exists>x. r = Inr x \<and> P (Inr x) (new_events w w1))"
    by (auto simp: wrap_def split: sum.splits failure.splits)
  ultimately show "\<exists>new. trace w' = trace w @ new \<and>
     ((\<exists>e. r = Inl (Err (c @ e)) \<and> P (Inl (Err e)) new) \<or>
      (\<exists>p. r = Inl (Panic p) \<and> P (Inl (Panic p)) new) \<or>
      (\<exists>x. r = Inr x \<and> P (Inr x) new))"
    using t1(1) by blast
qed

lemma sp_attempt:
  assumes "traces m P"
  shows "traces (attempt m)
           (\<lambda>r new. (\<exists>p. r = Inl (Panic p) \<and> P (Inl (Panic p)) new) \<or>
                     (\<exists>e. r = Inr (Inl e) \<and> P (Inl (Err e)) new) \<or>
                     (\<exists>x. r = Inr (Inr x) \<and> P (Inr x) new))"
proof (rule tracesI)
  fix w r w' assume run: "attempt m w = (r, w')"
  obtain r1 w1 where m: "m w = (r1, w1)" by (cases "m w")
  note t1 = tracesD [OF assms m]
  from run m have "w' = w1" by (auto simp: attempt_def split: sum.splits failure.splits)
  moreover from run m t1(2) have
    "(\<exists>p. r = Inl (Panic p) \<and> P (Inl (Panic p)) (new_events w w1)) \<or>
     (\<exists>e. r = Inr (Inl e) \<and> P (Inl (Err e)) (new_events w w1)) \<or>
     (\<exists>x. r = Inr (Inr x) \<and> P (Inr x) (new_events w w1))"
    by (auto simp: attempt_def split: sum.splits failure.splits)
  ultimately show "\<exists>new. trace w' = trace w @ new \<and>
     ((\<exists>p. r = Inl (Panic p) \<and> P (Inl (Panic p)) new) \<or>
      (\<exists>e. r = Inr (Inl e) \<and> P (Inl (Err e)) new) \<or>
      (\<exists>x. r = Inr (Inr x) \<and> P (Inr x) new))"
    using t1(1) by blast
qed

lemma sp_if:
  assumes "traces m1 P1" "traces m2 P2"
  shows "traces (if b then m1 else m2) (\<lambda>r new. (b \<and> P1 r new) \<or> (\<not> b \<and> P2 r new))"
  using assms by (cases b) (auto elim: traces_weaken)

lemma sp_case_option:
  assumes "traces m1 P1" "\<And>x. traces (m2 x) (P2 x)"
  shows "traces (case opt of None \<Rightarrow> m1 | Some x \<Rightarrow> m2 x)
           (\<lambda>r new. (opt = None \<and> P1 r new) \<or> (\<exists>x. opt = Some x \<and> P2 x r new))"
  using assms by (cases opt) (auto elim: traces_weaken)

lemma sp_case_sum:
  assumes "\<And>x. traces (m1 x) (P1 x)" "\<And>x. traces (m2 x) (P2 x)"
  shows "traces (case s of Inl x \<Rightarrow> m1 x | Inr x \<Rightarrow> m2 x)
           (\<lambda>r new. (\<exists>x. s = Inl x \<and> P1 x r new) \<or> (\<exists>x. s = Inr x \<and> P2 x r new))"
  using assms by (cases s) (auto elim: traces_weaken)

lemma sp_case_prod:
  assumes "\<And>a b. traces (m a b) (P a b)"
  shows "traces (case p of (a, b) \<Rightarrow> m a b) (\<lambda>r new. \<exists>a b. p = (a, b) \<and> P a b r new)"
  using assms by (cases p) (auto elim: traces_weaken)

lemma sp_Let:
  assumes "traces (f v) P"
  shows "traces (Let v f) P"
  using assms by simp

lemma sp_lift: "traces (lift x) (\<lambda>r new. r = x \<and> new = [])"
  by (rule tracesI) (simp add: lift_def)

lemmas sp_rules = sp_ok sp_fail sp_log sp_read_host sp_on_host sp_extern sp_lift sp_andThen
  sp_wrap sp_attempt sp_if sp_case_option sp_case_sum sp_case_prod sp_Let

lemma traces_logCRIUError:
  "traces (logCRIUError lf) (\<lambda>r new. r = Inr () \<and> filter is_dump_attempt new = [])"
  unfolding logCRIUError_def
  apply (rule traces_weaken)
   apply (rule sp_rules)+
  apply (auto simp: ReadFile_def split: sum.splits failure.splits)
  apply (metis sum.exhaust)
  done


lemma traces_CheckpointProcessCmd:
  "traces (CheckpointProcessCmd E pid opts)
     (\<lambda>r new. \<exists>res.
        filter is_dump_attempt new =
          [ExecCriu (CheckpointOptions.WorkDir opts) (CheckpointProcessCmd_args pid opts) res] \<and>
        r = (case fst res of
               None \<Rightarrow> Inr ()
             | Some e \<Rightarrow> Inl (Err (''CRIU checkpoint failed: '' @ e @ ''\<newline>Output: '' @ snd res))))"
  unfolding CheckpointProcessCmd_def
  apply (rule traces_weaken)
   apply (rule sp_rules)+
  apply auto
  done

lemma traces_CheckpointProcess:
  "traces (CheckpointProcess E pid opts)
     (\<lambda>r new.
        (filter is_dump_attempt new = [] \<and> (\<exists>f. r = Inl f)) \<or>
        (\<exists>opt. filter is_dump_attempt new = [CriuDump opt None] \<and> r = Inr ()) \<or>
        (\<exists>opt e1 res.
           filter is_dump_attempt new =
             [CriuDump opt (Some e1),
              ExecCriu (CheckpointOptions.WorkDir opts) (CheckpointProcessCmd_args pid opts) res] \<and>
           r = (case fst res of
                  None \<Rightarrow> Inr ()
                | Some e2 \<Rightarrow>
                    Inl (Err (''both go-criu and command-line CRIU failed.\<newline>Library error: '' @ e1 @
                              ''\<newline>Command error: '' @
                              ''CRIU checkpoint failed: '' @ e2 @ ''\<newline>Output: '' @ snd res)))))"
  unfolding CheckpointProcess_def
  apply (rule traces_weaken)
   apply (rule sp_rules traces_logCRIUError traces_CheckpointProcessCmd)+
  apply (simp cong: conj_cong)
  apply (elim exE conjE disjE; simp split: option.splits)
  done

section \<open>Properties of \<open>ValidateCheckpoint\<close>\<close>

lemma andThen_log: "andThen (log l s) f w = f () (w\<lparr>trace := trace w @ [Log l s]\<rparr>)"
  by (simp add: andThen_def log_def)

lemma andThen_failed: "m w = (Inl e, w1) \<Longrightarrow> andThen m f w = (Inl e, w1)"
  by (simp add: andThen_def)

lemma andThen_passed: "m w = (Inr x, w1) \<Longrightarrow> andThen m f w = f x w1"
  by (simp add: andThen_def)

lemma ValidateCheckpoint_loop_requiredFiles:
  "ValidateCheckpoint_loop dir requiredFiles w =
     (if \<not> FileExists (hostfs w) (filepath_Join dir ''container_metadata.json'') then
        (Inl (Err ''missing required file: container_metadata.json''), w)
      else if \<not> FileExists (hostfs w) (filepath_Join dir ''mount_mappings.json'') then
        (Inl (Err ''missing required file: mount_mappings.json''), w)
      else if \<not> FileExists (hostfs w) (filepath_Join dir ''checkpoint_metadata.json'') then
        (Inl (Err ''missing required file: checkpoint_metadata.json''), w)
      else
        (case DirExists (hostfs w) (filepath_Join dir ''images'') of
           Inl f \<Rightarrow> (Inl f, w)
         | Inr exists \<Rightarrow>
             if \<not> exists then (Inl (Err ''missing required directory: images''), w)
             else (Inr (), w)))"
  by (simp add: requiredFiles_def prog_defs Let_def split: sum.splits)

lemma ValidateCheckpoint_unfold:
  "ValidateCheckpoint dir w =
     (case DirExists (hostfs w) dir of
        Inl f \<Rightarrow> (Inl f, w)
      | Inr exists \<Rightarrow>
          if \<not> exists then (Inl (Err (''checkpoint directory does not exist: '' @ dir)), w)
          else
            (case ValidateCheckpoint_loop dir requiredFiles w of
               (Inl f, w1) \<Rightarrow> (Inl f, w1)
             | (Inr u, w1) \<Rightarrow>
                 (case ListFiles (hostfs w1) (filepath_Join dir ''images'') of
                    Inl (Err e) \<Rightarrow> (Inl (Err (''failed to list images directory: '' @ e)), w1)
                  | Inl (Panic p) \<Rightarrow> (Inl (Panic p), w1)
                  | Inr files \<Rightarrow>
                      if length files = 0
                      then (Inl (Err ''checkpoint images directory is empty''), w1)
                      else (Inr (),
                            w1\<lparr>trace := trace w1 @
                              [Log InfoLevel (''Checkpoint validation successful: '' @
                                 Sprintf_d (int (length files)) @ '' image files found'')]\<rparr>))))"
  unfolding ValidateCheckpoint_def
  by (simp add: prog_defs Let_def split: sum.splits prod.splits failure.splits)

lemma ValidateCheckpoint_incomplete:
  assumes "\<not> (FileExists (hostfs w) (filepath_Join dir ''container_metadata.json'') \<and>
              FileExists (hostfs w) (filepath_Join dir ''mount_mappings.json'') \<and>
              FileExists (hostfs w) (filepath_Join dir ''checkpoint_metadata.json'') \<and>
              DirExists (hostfs w) (filepath_Join dir ''images'') = Inr True \<and>
              (\<exists>files. ListFiles (hostfs w) (filepath_Join dir ''images'') = Inr files \<and> files \<noteq> []))"
  shows "(\<exists>e. ValidateCheckpoint dir w = (Inl (Err e), w)) \<or>
         (\<exists>p. ValidateCheckpoint dir w = (Inl (Panic p), w))"
proof -
  let ?h = "hostfs w"
  let ?img = "filepath_Join dir ''images''"
  have dir_cases: "(\<exists>p. DirExists ?h d = Inl (Panic p)) \<or> (\<exists>b. DirExists ?h d = Inr b)" for d
    by (auto simp: DirExists_def split: sum.splits)
  have list_cases: "(\<exists>e. ListFiles ?h ?img = Inl (Err e)) \<or> (\<exists>files. ListFiles ?h ?img = Inr files)"
    by (auto simp: ListFiles_def split: sum.splits)
  from dir_cases [of dir] show ?thesis
  proof (elim disjE exE)
    fix p assume "DirExists ?h dir = Inl (Panic p)"
    then show ?thesis by (simp add: ValidateCheckpoint_unfold)
  next
    fix b assume d: "DirExists ?h dir = Inr b"
    show ?thesis
    proof (cases b)
      case False
      with d show ?thesis by (simp add: ValidateCheckpoint_unfold)
    next
      case True
      note top = d [unfolded True]
      show ?thesis
      proof (cases "FileExists ?h (filepath_Join dir ''container_metadata.json'') \<and>
              FileExists ?h (filepath_Join dir ''mount_mappings.json'') \<and>
              FileExists ?h (filepath_Join dir ''checkpoint_metadata.json'')")
        case False
        then have "\<exists>e. ValidateCheckpoint_loop dir requiredFiles w = (Inl (Err e), w)"
          unfolding ValidateCheckpoint_loop_requiredFiles by (simp split: if_splits)
        then obtain e where "ValidateCheckpoint_loop dir requiredFiles w = (Inl (Err e), w)" ..
        with top show ?thesis by (simp add: ValidateCheckpoint_unfold)
      next
        case files: True
        from dir_cases [of ?img] show ?thesis
        proof (elim disjE exE)
          fix p assume "DirExists ?h ?img = Inl (Panic p)"
          with files have "ValidateCheckpoint_loop dir requiredFiles w = (Inl (Panic p), w)"
            unfolding ValidateCheckpoint_loop_requiredFiles by simp
          with top show ?thesis by (simp add: ValidateCheckpoint_unfold)
        next
          fix bi assume di: "DirExists ?h ?img = Inr bi"
          show ?thesis
          proof (cases bi)
            case False
            with di files have "ValidateCheckpoint_loop dir requiredFiles w =
                (Inl (Err ''missing required directory: images''), w)"
              unfolding ValidateCheckpoint_loop_requiredFiles by simp
            with top show ?thesis by (simp add: ValidateCheckpoint_unfold)
          next
            case True
            with di files have loop: "ValidateCheckpoint_loop dir requiredFiles w = (Inr (), w)"
              unfolding ValidateCheckpoint_loop_requiredFiles by simp
            from list_cases show ?thesis
            proof (elim disjE exE)
              fix e assume "ListFiles ?h ?img = Inl (Err e)"
              with top loop show ?thesis by (simp add: ValidateCheckpoint_unfold)
            next
              fix fl assume l: "ListFiles ?h ?img = Inr fl"
              with assms files di True have "fl = []" by simp
              with l top loop show ?thesis by (simp add: ValidateCheckpoint_unfold)
            qed
          qed
        qed
      qed
    qed
  qed
qed

section \<open>Events of a restore\<close>

lemma emits_weaken: "traces m P \<Longrightarrow> (\<And>r new. P r new \<Longrightarrow> list_all Q new) \<Longrightarrow> emits Q m"
  by (rule traces_weaken)

lemma emits_ok: "emits Q (ok x)"
  by (rule traces_weaken [OF sp_ok]) simp

lemma emits_fail: "emits Q (fail f)"
  by (rule traces_weaken [OF sp_fail]) simp

lemma emits_lift: "emits Q (lift x)"
  by (rule traces_weaken [OF sp_lift]) simp

lemma emits_read_host: "emits Q (read_host f)"
  by (rule traces_weaken [OF sp_read_host]) simp

lemma emits_on_host: "emits Q (on_host f)"
  by (rule traces_weaken [OF sp_on_host]) simp

lemma emits_log: "Q (Log l s) \<Longrightarrow> emits Q (log l s)"
  by (rule traces_weaken [OF sp_log]) simp

lemma emits_extern: "(\<And>a. Q (ev a)) \<Longrightarrow> emits Q (extern call ev)"
  by (rule traces_weaken [OF sp_extern]) auto

lemma emits_andThen: "emits Q m \<Longrightarrow> (\<And>x. emits Q (f x)) \<Longrightarrow> emits Q (andThen m f)"
  by (rule traces_weaken [OF sp_andThen]) auto

lemma emits_wrap: "emits Q m \<Longrightarrow> emits Q (wrap c m)"
  by (rule traces_weaken [OF sp_wrap]) auto

lemma emits_attempt: "emits Q m \<Longrightarrow> emits Q (attempt m)"
  by (rule traces_weaken [OF sp_attempt]) auto

lemma emits_if: "emits Q m1 \<Longrightarrow> emits Q m2 \<Longrightarrow> emits Q (if b then m1 else m2)"
  by simp

lemma emits_case_option:
  "emits Q m1 \<Longrightarrow> (\<And>x. emits Q (m2 x)) \<Longrightarrow> emits Q (case opt of None \<Rightarrow> m1 | Some x \<Rightarrow> m2 x)"
  by (cases opt) simp_all

lemma emits_case_sum:
  "(\<And>x. emits Q (m1 x)) \<Longrightarrow> (\<And>x. emits Q (m2 x)) \<Longrightarrow>
   emits Q (case s of Inl x \<Rightarrow> m1 x | Inr x \<Rightarrow> m2 x)"
  by (cases s) simp_all

lemma emits_case_prod:
  "(\<And>a b. emits Q (m a b)) \<Longrightarrow> emits Q (case p of (a, b) \<Rightarrow> m a b)"
  by (cases p) simp

lemma emits_Let: "emits Q (f v) \<Longrightarrow> emits Q (Let v f)"
  by simp

lemma emits_state: "emits Q (\<lambda>w. (Inr (g w), w))"
  by (rule tracesI) simp

lemmas emits_rules = emits_ok emits_fail emits_lift emits_read_host emits_on_host emits_log
  emits_extern emits_andThen emits_wrap emits_attempt emits_if emits_case_option emits_case_sum
  emits_case_prod emits_Let emits_state

lemma emits_ValidateCheckpoint_loop:
  "(\<And>l s. Q (Log l s)) \<Longrightarrow> emits Q (ValidateCheckpoint_loop dir files)"
  by (induction files) (simp_all add: emits_rules)

lemma emits_ValidateCheckpoint: "(\<And>l s. Q (Log l s)) \<Longrightarrow> emits Q (ValidateCheckpoint dir)"
  unfolding ValidateCheckpoint_def
  by (intro emits_rules emits_ValidateCheckpoint_loop) simp_all

lemma emits_GetCheckpointInfo: "emits Q (GetCheckpointInfo J dir)"
  unfolding GetCheckpointInfo_def
  by (intro emits_rules)

lemma emits_LoadMountMappings: "emits Q (LoadMountMappings J file)"
  unfolding LoadMountMappings_def
  by (intro emits_rules)

lemma emits_validateRestoreEnvironment_loop:
  "(\<And>l s. Q (Log l s)) \<Longrightarrow> emits Q (validateRestoreEnvironment_loop ms n)"
  by (induction ms arbitrary: n) (simp_all add: emits_rules)

lemma emits_validateRestoreEnvironment:
  "(\<And>l s. Q (Log l s)) \<Longrightarrow> emits Q (validateRestoreEnvironment st ms)"
  unfolding validateRestoreEnvironment_def checkPtraceConflicts_def
  by (intro emits_rules emits_validateRestoreEnvironment_loop) simp_all

lemma emits_prepareMountNamespace_loop:
  "(\<And>l s. Q (Log l s)) \<Longrightarrow> emits Q (prepareMountNamespace_loop ms fix)"
  by (induction ms) (simp_all add: emits_rules)

lemma emits_prepareMountNamespace:
  "(\<And>l s. Q (Log l s)) \<Longrightarrow> emits Q (prepareMountNamespace cid ms fix)"
  unfolding prepareMountNamespace_def
  by (intro emits_rules emits_prepareMountNamespace_loop) simp_all

lemma emits_CreateRestoreContainer:
  "(\<And>l s. Q (Log l s)) \<Longrightarrow> (\<And>c h n a. Q (ContainerCreate c h n a)) \<Longrightarrow>
   emits Q (CreateRestoreContainer E st name)"
  unfolding CreateRestoreContainer_def
  by (intro emits_rules) simp_all

lemma emits_StartContainer:
  "(\<And>c a. Q (ContainerStart c a)) \<Longrightarrow> emits Q (StartContainer E cid)"
  unfolding StartContainer_def
  by (intro emits_rules) simp_all

lemma emits_StopContainer:
  "(\<And>c t a. Q (ContainerStop c t a)) \<Longrightarrow> emits Q (StopContainer E cid t)"
  unfolding StopContainer_def
  by (intro emits_rules) simp_all

lemma emits_GetContainerPID:
  "(\<And>c a. Q (ContainerInspect c a)) \<Longrightarrow> emits Q (GetContainerPID E cid)"
  unfolding GetContainerPID_def
  by (intro emits_rules) simp_all

lemma emits_CreateExtMountMapFile: "emits Q (CreateExtMountMapFile ms file)"
  unfolding CreateExtMountMapFile_def
  by (simp add: emits_rules)

lemma emits_GetContainerLogs:
  "(\<And>c t a. Q (ContainerLogs c t a)) \<Longrightarrow> emits Q (GetContainerLogs E cid t)"
  unfolding GetContainerLogs_def
  by (intro emits_rules) simp_all

lemma emits_logCRIUError: "(\<And>l s. Q (Log l s)) \<Longrightarrow> emits Q (logCRIUError lf)"
  unfolding logCRIUError_def
  by (intro emits_rules) simp_all

lemma traces_prefix:
  assumes "emits C m" "\<And>x. traces (f x) P"
    and "\<And>e new. list_all C new \<Longrightarrow> P (Inl e) new"
    and "\<And>r new1 new2. list_all C new1 \<Longrightarrow> P r new2 \<Longrightarrow> P r (new1 @ new2)"
  shows "traces (andThen m f) P"
  by (rule traces_weaken [OF sp_andThen [OF assms(1) assms(2)]]) (auto intro: assms(3,4))

lemma traces_if:
  "traces m1 P \<Longrightarrow> traces m2 P \<Longrightarrow> traces (if b then m1 else m2) P"
  by simp

lemma traces_RestoreProcess:
  "traces (RestoreProcess E opts)
     (\<lambda>r new.
        ((\<exists>f. r = Inl f) \<and> list_all (\<lambda>ev. \<not> engine_restore_succeeded ev) new) \<or>
        (r = Inr () \<and>
         (\<exists>before criuOpts.
            new = before @ [CriuRestore criuOpts None,
                            Log InfoLevel ''CRIU restore completed successfully''] \<and>
            list_all (\<lambda>ev. \<not> engine_restore_succeeded ev) before)))"
  (is "traces _ ?P")
proof -
  let ?C = "\<lambda>ev. \<not> engine_restore_succeeded ev"
  have failed: "?P (Inl e) new" if "list_all ?C new" for e new
    using that by simp
  have prefixed: "?P r (new1 @ new2)" if c: "list_all ?C new1" and p: "?P r new2" for r new1 new2
    using p
  proof (elim disjE conjE exE)
    fix f assume "r = Inl f" "list_all ?C new2"
    with c show ?thesis by simp
  next
    fix before criuOpts
    assume r: "r = Inr ()"
      and n: "new2 = before @ [CriuRestore criuOpts None,
                               Log InfoLevel ''CRIU restore completed successfully'']"
      and b: "list_all ?C before"
    from n have "new1 @ new2 = (new1 @ before) @ [CriuRestore criuOpts None,
                               Log InfoLevel ''CRIU restore completed successfully'']"
      by simp
    moreover from c b have "list_all ?C (new1 @ before)" by simp
    ultimately show ?thesis using r by blast
  qed
  have step: "traces (andThen m f) ?P" if "emits ?C m" "\<And>x. traces (f x) ?P" for m f
    using that(1) that(2)
  proof (rule traces_prefix)
    show "?P (Inl e) new" if "list_all ?C new" for e new
      using that by (rule failed)
    show "?P r (new1 @ new2)" if "list_all ?C new1" "?P r new2" for r new1 new2
      using that by (rule prefixed)
  qed
  have lg: "emits ?C (logCRIUError lf)" for lf
    by (rule emits_logCRIUError) simp
  have tail: "traces
      (andThen (extern (\<lambda>w. criu_Restore E w criuOpts) (CriuRestore criuOpts)) (\<lambda>err.
        case err of
          Some e \<Rightarrow>
            andThen (logCRIUError (RestoreOptions.LogFile opts)) (\<lambda>_.
            fail (Err (''CRIU restore failed: '' @ e)))
        | None \<Rightarrow>
            andThen (log InfoLevel ''CRIU restore completed successfully'') (\<lambda>_.
            ok ()))) ?P" for criuOpts
    apply (rule traces_weaken)
     apply (rule sp_rules lg)+
    apply (simp cong: conj_cong)
    apply (elim exE conjE disjE; simp split: option.splits)
    done
  have failing: "traces (fail e) ?P" for e
    by (rule traces_weaken [OF sp_fail]) simp
  show ?thesis
    unfolding RestoreProcess_def
    by (rule tail | (rule step, (intro emits_rules; (simp; fail))) |
        (rule traces_if, rule failing) | rule sp_Let)+
qed

lemma sp_state: "traces (\<lambda>w. (Inr (g w), w)) (\<lambda>r new. new = [] \<and> (\<exists>x. r = Inr x))"
  by (rule tracesI) auto

lemma traces_GetContainerState:
  "traces (GetContainerState E nameOrID)
     (\<lambda>r new. \<exists>res. new = [ContainerInspect nameOrID res] \<and>
        ((\<exists>err. res = Inl err \<and> r = Inl (Err (''failed to inspect container: '' @ err))) \<or>
         (\<exists>containerJSON. res = Inr containerJSON \<and> State containerJSON = None \<and>
            (\<exists>p. r = Inl (Panic p))) \<or>
         (\<exists>containerJSON state. res = Inr containerJSON \<and> State containerJSON = Some state \<and>
            \<not> Running state \<and> r = Inl (Err (''container '' @ nameOrID @ '' is not running''))) \<or>
         (\<exists>containerJSON state. res = Inr containerJSON \<and> State containerJSON = Some state \<and>
            Running state \<and>
            (inspect_wellformed containerJSON \<longrightarrow>
               (\<exists>s. r = Inr s \<and> ContainerState.ID s = ContainerJSON.ID containerJSON)))))"
proof (rule tracesI)
  fix w r w' assume run: "GetContainerState E nameOrID w = (r, w')"
  obtain res h where call: "docker_ContainerInspect E w nameOrID = (res, h)"
    by (cases "docker_ContainerInspect E w nameOrID")
  let ?w1 = "w\<lparr>hostfs := h, trace := trace w @ [ContainerInspect nameOrID res]\<rparr>"
  have first: "extern (\<lambda>w. docker_ContainerInspect E w nameOrID) (ContainerInspect nameOrID) w =
      (Inr res, ?w1)"
    using call by (simp add: extern_def)
  note passed = andThen_passed [of "extern (\<lambda>w. docker_ContainerInspect E w nameOrID) (ContainerInspect nameOrID)" w res ?w1, OF first]
  note unfold = run [unfolded GetContainerState_def passed]
  have "trace w' = trace w @ [ContainerInspect nameOrID res] \<and>
        ((\<exists>err. res = Inl err \<and> r = Inl (Err (''failed to inspect container: '' @ err))) \<or>
         (\<exists>containerJSON. res = Inr containerJSON \<and> State containerJSON = None \<and>
            (\<exists>p. r = Inl (Panic p))) \<or>
         (\<exists>containerJSON state. res = Inr containerJSON \<and> State containerJSON = Some state \<and>
            \<not> Running state \<and> r = Inl (Err (''container '' @ nameOrID @ '' is not running''))) \<or>
         (\<exists>containerJSON state. res = Inr containerJSON \<and> State containerJSON = Some state \<and>
            Running state \<and>
            (inspect_wellformed containerJSON \<longrightarrow>
               (\<exists>s. r = Inr s \<and> ContainerState.ID s = ContainerJSON.ID containerJSON))))"
  proof (cases res)
    case (Inl err)
    with unfold show ?thesis by (auto simp: fail_def)
  next
    case (Inr containerJSON)
    show ?thesis
    proof (cases "State containerJSON")
      case None
      with unfold Inr show ?thesis by (auto simp: andThen_def lift_def deref_def)
    next
      case (Some state)
      show ?thesis
      proof (cases "Running state")
        case False
        with unfold Inr Some show ?thesis
          by (auto simp: andThen_def lift_def deref_def fail_def)
      next
        case True
        show ?thesis
        proof (cases "inspect_wellformed containerJSON")
          case False
          from unfold have "trace w' = trace ?w1"
            using Inr Some True
            by (auto simp: andThen_def lift_def deref_def ok_def Let_def
                split: option.splits sum.splits prod.splits)
          with Inr Some True False show ?thesis by simp
        next
          case wf: True
          then obtain hostConfig config networkSettings where
            "ContainerJSON.HostConfig containerJSON = Some hostConfig"
            "ContainerJSON.Config containerJSON = Some config"
            "NetworkSettings containerJSON = Some networkSettings"
            by (auto simp: inspect_wellformed_def)
          with unfold Inr Some True show ?thesis
            by (auto simp: andThen_def lift_def deref_def ok_def Let_def)
        qed
      qed
    qed
  qed
  then show "\<exists>new. trace w' = trace w @ new \<and> (\<exists>res. new = [ContainerInspect nameOrID res] \<and>
        ((\<exists>err. res = Inl err \<and> r = Inl (Err (''failed to inspect container: '' @ err))) \<or>
         (\<exists>containerJSON. res = Inr containerJSON \<and> State containerJSON = None \<and>
            (\<exists>p. r = Inl (Panic p))) \<or>
         (\<exists>containerJSON state. res = Inr containerJSON \<and> State containerJSON = Some state \<and>
            \<not> Running state \<and> r = Inl (Err (''container '' @ nameOrID @ '' is not running''))) \<or>
         (\<exists>containerJSON state. res = Inr containerJSON \<and> State containerJSON = Some state \<and>
            Running state \<and>
            (inspect_wellformed containerJSON \<longrightarrow>
               (\<exists>s. r = Inr s \<and> ContainerState.ID s = ContainerJSON.ID containerJSON)))))"
    by blast
qed

lemma traces_conj:
  assumes "traces m P" "traces m Q"
  shows "traces m (\<lambda>r new. P r new \<and> Q r new)"
  using assms unfolding traces_def by blast

lemma traces_report:
  "traces
     (andThen (log InfoLevel ''Restored container state:'') (\<lambda>_.
      andThen (log InfoLevel (''  Name: '' @ ContainerState.Name state)) (\<lambda>_.
      andThen (lift (slice_to (ContainerState.ID state) 12)) (\<lambda>shortID.
      andThen (log InfoLevel (''  ID: '' @ shortID)) (\<lambda>_.
      andThen (log InfoLevel (''  PID: '' @ Sprintf_d (ProcessPID state))) (\<lambda>_.
      andThen (log InfoLevel (''  Image: '' @ ContainerState.Image state)) (\<lambda>_.
      andThen (attempt (GetContainerLogs E (ContainerState.ID state) ''10'')) (\<lambda>res.
      andThen (case res of
                 Inr logs \<Rightarrow>
                   if logs \<noteq> '''' then log InfoLevel (''Recent container logs:\<newline>'' @ logs)
                   else ok ()
               | Inl err \<Rightarrow> ok ()) (\<lambda>_.
      ok ())))))))))
     (\<lambda>r new. list_all (\<lambda>ev. \<not> engine_restore_succeeded ev) new \<and>
        (12 \<le> length (ContainerState.ID state) \<longrightarrow> r = Inr ()))"
proof (rule traces_conj)
  show "emits (\<lambda>ev. \<not> engine_restore_succeeded ev)
     (andThen (log InfoLevel ''Restored container state:'') (\<lambda>_.
      andThen (log InfoLevel (''  Name: '' @ ContainerState.Name state)) (\<lambda>_.
      andThen (lift (slice_to (ContainerState.ID state) 12)) (\<lambda>shortID.
      andThen (log InfoLevel (''  ID: '' @ shortID)) (\<lambda>_.
      andThen (log InfoLevel (''  PID: '' @ Sprintf_d (ProcessPID state))) (\<lambda>_.
      andThen (log InfoLevel (''  Image: '' @ ContainerState.Image state)) (\<lambda>_.
      andThen (attempt (GetContainerLogs E (ContainerState.ID state) ''10'')) (\<lambda>res.
      andThen (case res of
                 Inr logs \<Rightarrow>
                   if logs \<noteq> '''' then log InfoLevel (''Recent container logs:\<newline>'' @ logs)
                   else ok ()
               | Inl err \<Rightarrow> ok ()) (\<lambda>_.
      ok ())))))))))"
    by (intro emits_rules emits_GetContainerLogs; simp)
  have logs: "traces (GetContainerLogs E cid t) (\<lambda>r new. \<forall>p. r \<noteq> Inl (Panic p))" for cid t
    unfolding GetContainerLogs_def
    apply (rule traces_weaken)
     apply (rule sp_rules)+
    apply auto
    done
  show "traces
     (andThen (log InfoLevel ''Restored container state:'') (\<lambda>_.
      andThen (log InfoLevel (''  Name: '' @ ContainerState.Name state)) (\<lambda>_.
      andThen (lift (slice_to (ContainerState.ID state) 12)) (\<lambda>shortID.
      andThen (log InfoLevel (''  ID: '' @ shortID)) (\<lambda>_.
      andThen (log InfoLevel (''  PID: '' @ Sprintf_d (ProcessPID state))) (\<lambda>_.
      andThen (log InfoLevel (''  Image: '' @ ContainerState.Image state)) (\<lambda>_.
      andThen (attempt (GetContainerLogs E (ContainerState.ID state) ''10'')) (\<lambda>res.
      andThen (case res of
                 Inr logs \<Rightarrow>
                   if logs \<noteq> '''' then log InfoLevel (''Recent container logs:\<newline>'' @ logs)
                   else ok ()
               | Inl err \<Rightarrow> ok ()) (\<lambda>_.
      ok ())))))))))
     (\<lambda>r new. 12 \<le> length (ContainerState.ID state) \<longrightarrow> r = Inr ())"
    apply (rule traces_weaken)
     apply (rule sp_rules logs)+
    apply (simp add: slice_to_def cong: conj_cong)
    apply (elim exE conjE disjE; simp split: if_splits)
    done
qed

lemma traces_verifyRestoration:
  "traces (verifyRestoration E containerName)
     (\<lambda>r new. \<exists>res rest.
        new = Log InfoLevel ''Verifying restoration...'' # ContainerInspect containerName res # rest \<and>
        list_all (\<lambda>ev. \<not> engine_restore_succeeded ev) rest \<and>
        ((\<exists>err. res = Inl err) \<or>
         (\<exists>containerJSON state. res = Inr containerJSON \<and> State containerJSON = Some state \<and>
            \<not> Running state) \<longrightarrow>
         r = Inr () \<and>
         rest = [Log WarnLevel ''Container not running, checking basic status...'']) \<and>
        (\<forall>containerJSON. res = Inr containerJSON \<longrightarrow> inspect_wellformed containerJSON \<longrightarrow>
           r = Inr ()))"
  unfolding verifyRestoration_def
  apply (rule traces_weaken)
   apply (rule traces_report traces_GetContainerState sp_rules)+
  apply (simp cong: conj_cong)
  apply (elim exE conjE disjE; simp add: inspect_wellformed_def)
  done

lemmas emits_programs = emits_ValidateCheckpoint emits_GetCheckpointInfo emits_LoadMountMappings
  emits_validateRestoreEnvironment emits_prepareMountNamespace emits_CreateRestoreContainer
  emits_StartContainer emits_StopContainer emits_GetContainerPID emits_CreateExtMountMapFile
  emits_GetContainerLogs emits_logCRIUError

lemma traces_Restore:
  "traces (Restore E config)
     (\<lambda>r new.
        list_all (\<lambda>ev. \<not> engine_restore_succeeded ev) new \<or>
        (\<exists>before criuOpts res rest.
           new = before @
             [CriuRestore criuOpts None,
              Log InfoLevel ''CRIU restore completed successfully'',
              Log InfoLevel ''Verifying restoration...'',
              ContainerInspect (NewContainerName config) res] @ rest \<and>
           list_all (\<lambda>ev. \<not> engine_restore_succeeded ev) before \<and>
           list_all (\<lambda>ev. \<not> engine_restore_succeeded ev) rest \<and>
           ((\<exists>err. res = Inl err) \<or>
            (\<exists>containerJSON state. res = Inr containerJSON \<and> State containerJSON = Some state \<and>
               \<not> Running state) \<longrightarrow>
            r = Inr () \<and>
            rest = [Log WarnLevel ''Container not running, checking basic status...'',
                    Log InfoLevel (''Container restored successfully as: '' @
                                   NewContainerName config)]) \<and>
           (\<forall>containerJSON. res = Inr containerJSON \<longrightarrow> inspect_wellformed containerJSON \<longrightarrow>
              r = Inr ())))"
  (is "traces _ ?P")
proof -
  let ?C = "\<lambda>ev. \<not> engine_restore_succeeded ev"
  have failed: "?P (Inl e) new" if "list_all ?C new" for e new
    using that by simp
  have prefixed: "?P r (new1 @ new2)" if c: "list_all ?C new1" and p: "?P r new2" for r new1 new2
    using p
  proof (elim disjE conjE exE)
    assume "list_all ?C new2"
    with c show ?thesis by simp
  next
    fix before criuOpts res rest
    assume n: "new2 = before @
             [CriuRestore criuOpts None,
              Log InfoLevel ''CRIU restore completed successfully'',
              Log InfoLevel ''Verifying restoration...'',
              ContainerInspect (NewContainerName config) res] @ rest"
      and b: "list_all ?C before" and rs: "list_all ?C rest"
      and f: "(\<exists>err. res = Inl err) \<or>
            (\<exists>containerJSON state. res = Inr containerJSON \<and> State containerJSON = Some state \<and>
               \<not> Running state) \<longrightarrow>
            r = Inr () \<and>
            rest = [Log WarnLevel ''Container not running, checking basic status...'',
                    Log InfoLevel (''Container restored successfully as: '' @
                                   NewContainerName config)]"
      and g: "\<forall>containerJSON. res = Inr containerJSON \<longrightarrow> inspect_wellformed containerJSON \<longrightarrow>
              r = Inr ()"
    from n have "new1 @ new2 = (new1 @ before) @
             [CriuRestore criuOpts None,
              Log InfoLevel ''CRIU restore completed successfully'',
              Log InfoLevel ''Verifying restoration...'',
              ContainerInspect (NewContainerName config) res] @ rest"
      by simp
    moreover from c b have "list_all ?C (new1 @ before)" by simp
    ultimately show ?thesis using rs f g by blast
  qed
  have step: "traces (andThen m f) ?P" if "emits ?C m" "\<And>x. traces (f x) ?P" for m f
    using that(1) that(2)
  proof (rule traces_prefix)
    show "?P (Inl e) new" if "list_all ?C new" for e new
      using that by (rule failed)
    show "?P r (new1 @ new2)" if "list_all ?C new1" "?P r new2" for r new1 new2
      using that by (rule prefixed)
  qed
  have tail: "traces
      (andThen (wrap ''CRIU restore failed: '' (RestoreProcess E criuOpts)) (\<lambda>_.
       andThen (attempt (verifyRestoration E (NewContainerName config))) (\<lambda>res.
       case res of
         Inl err \<Rightarrow>
           andThen (log WarnLevel (''Restoration verification failed: '' @ err)) (\<lambda>_.
           fail (Err (''restore verification failed: '' @ err)))
       | Inr _ \<Rightarrow>
           andThen (log InfoLevel (''Container restored successfully as: '' @
                                   NewContainerName config)) (\<lambda>_.
           ok ())))) ?P" for criuOpts
    apply (rule traces_weaken)
     apply (rule traces_RestoreProcess traces_verifyRestoration sp_rules)+
    apply (simp cong: conj_cong)
    apply (elim exE conjE disjE; simp; (intro exI conjI, rule refl; simp)?)
    done
  show ?thesis
    unfolding Restore_def
    by (rule tail | (rule step, (intro emits_rules emits_programs; (simp; fail))) | rule sp_Let)+
qed

section \<open>The example restore\<close>

lemma joins:
  "filepath_Join ''/out/c1/cp'' ''container_metadata.json'' = ''/out/c1/cp/container_metadata.json''"
  "filepath_Join ''/out/c1/cp'' ''mount_mappings.json'' = ''/out/c1/cp/mount_mappings.json''"
  "filepath_Join ''/out/c1/cp'' ''checkpoint_metadata.json'' = ''/out/c1/cp/checkpoint_metadata.json''"
  "filepath_Join ''/out/c1/cp'' ''images'' = ''/out/c1/cp/images''"
  "filepath_Join ''/out/c1/cp'' ''ext_mount_map'' = ''/out/c1/cp/ext_mount_map''"
  "filepath_Join ''/out/c1/cp'' ''restore.log'' = ''/out/c1/cp/restore.log''"
  "filepath_Dir ''/out/c1/cp/ext_mount_map'' = ''/out/c1/cp''"
  by (simp_all add: filepath_Join_def filepath_Dir_def Clean_def)

lemmas example_defs = Restore_def example_RestoreConfig_def joins prog_defs
      ValidateCheckpoint_def requiredFiles_def GetCheckpointInfo_def LoadMountMappings_def
      validateRestoreEnvironment_def checkPtraceConflicts_def CreateRestoreContainer_def
      prepareMountNamespace_def StartContainer_def GetContainerPID_def StopContainer_def
      CreateExtMountMapFile_def standardMappings_def RestoreProcess_def verifyRestoration_def
      GetContainerState_def Unmarshal_def CheckpointMetadata_of_json_def
      CheckpointMetadata_field_def CheckpointMetadata_zero_def ContainerState_of_json_def
      ContainerState_field_def ContainerState_zero_def MountMappings_of_json_def
      restoring_env_def failing_env_def example_json_def failing_json_def example_metadata_def
      example_checkpoint_def example_inspect_def example_Config_def example_HostConfig_def
      FileExists_def DirExists_def EnsureDir_def ReadFile_def ListFiles_def WriteFile_def
      os_Stat_def os_MkdirAll_def os_WriteFile_def os_ReadFile_def os_ReadDir_def os_Open_def
      deref_def slice_to_def to_lower_def Sprintf_d_def nat_digits.simps digit_char_def
      BuildExtMountMapArgs_def buildExternalMountArgs_def essentialMounts_def Let_def
      int32_def


text \<open>
  Claim C1 as stated (no two descriptors name the same container path, for every mapping
  list) does not hold.  A descriptor \<open>mnt[p]\<close> names the path \<open>p\<close>, and \<open>p\<close> is determined
  by the descriptor, so two descriptors name the same path exactly when they are equal.
  The function has no de-duplication: two external mappings with the container path
  \<open>/data\<close> give \<open>mnt[/data]\<close> twice, and one external mapping mounted at \<open>/etc/hosts\<close>
  repeats the allow-list's \<open>mnt[/etc/hosts]\<close>.
\<close>

theorem BuildExternalMountMappings_repeats_path:
  "\<not> distinct (BuildExternalMountMappings
      [\<lparr>ContainerPath = ''/data'', HostPath = ''/tmp/d1'', MountMapping.Type = ''bind'', Options = '''',
         IsExternal = True, ReadOnly = False\<rparr>,
       \<lparr>ContainerPath = ''/data'', HostPath = ''/tmp/d2'', MountMapping.Type = ''bind'', Options = '''',
         IsExternal = True, ReadOnly = False\<rparr>])
   \<and> \<not> distinct (BuildExternalMountMappings
      [\<lparr>ContainerPath = ''/etc/hosts'', HostPath = ''/tmp/hosts'', MountMapping.Type = ''bind'', Options = '''',
         IsExternal = True, ReadOnly = True\<rparr>])"
  by (simp add: BuildExternalMountMappings_def standardMounts_def HasPrefix_def)

text \<open>
  Claim C1, amended.  The descriptors returned by \<open>BuildExternalMountMappings\<close> name
  pairwise different container paths exactly when the mappings that pass the test
  (external, non-empty host path, container path not prefixed by \<open>/proc\<close>, \<open>/sys\<close> or
  \<open>/dev\<close>) have pairwise different container paths and none of them is one of the four
  allow-list paths outside those prefixes: \<open>.dockerenv\<close>, \<open>/etc/hosts\<close>, \<open>/etc/hostname\<close>,
  \<open>/etc/resolv.conf\<close>.
\<close>

theorem BuildExternalMountMappings_distinct_iff:
  "distinct (BuildExternalMountMappings mappings) \<longleftrightarrow>
     distinct (map ContainerPath
       (filter (\<lambda>m. IsExternal m \<and> HostPath m \<noteq> '''' \<and>
                    \<not> prefix ''/proc'' (ContainerPath m) \<and>
                    \<not> prefix ''/sys'' (ContainerPath m) \<and>
                    \<not> prefix ''/dev'' (ContainerPath m)) mappings)) \<and>
     set (map ContainerPath
       (filter (\<lambda>m. IsExternal m \<and> HostPath m \<noteq> '''' \<and>
                    \<not> prefix ''/proc'' (ContainerPath m) \<and>
                    \<not> prefix ''/sys'' (ContainerPath m) \<and>
                    \<not> prefix ''/dev'' (ContainerPath m)) mappings)) \<inter>
       {''.dockerenv'', ''/etc/hosts'', ''/etc/hostname'', ''/etc/resolv.conf''} = {}"
proof -
  let ?q = "\<lambda>m. IsExternal m \<and> HostPath m \<noteq> '''' \<and>
                    \<not> prefix ''/proc'' (ContainerPath m) \<and>
                    \<not> prefix ''/sys'' (ContainerPath m) \<and>
                    \<not> prefix ''/dev'' (ContainerPath m)"
  let ?ps = "map ContainerPath (filter ?q mappings)"
  let ?mnt = "\<lambda>p::string. ''mnt['' @ p @ '']''"
  let ?four = "{''.dockerenv'', ''/etc/hosts'', ''/etc/hostname'', ''/etc/resolv.conf''}"
  have out: "BuildExternalMountMappings mappings = standardMounts @ map ?mnt ?ps"
    by (simp add: BuildExternalMountMappings_def BuildExternalMountMappings_loop_eq comp_def)
  have inj: "inj_on ?mnt A" for A
    by (rule inj_onI) simp
  have d: "distinct (map ?mnt ?ps) = distinct ?ps"
    by (simp only: distinct_map inj simp_thms)
  have nopre: "\<not> prefix ''/proc'' p \<and> \<not> prefix ''/sys'' p \<and> \<not> prefix ''/dev'' p"
    if "p \<in> set ?ps" for p
    using that by auto
  have inj_mnt: "inj ?mnt"
    by (rule injI) simp
  have mem: "(?mnt p \<in> set (map ?mnt xs)) = (p \<in> set xs)" for p xs
    unfolding set_map by (rule inj_image_mem_iff [OF inj_mnt])
  have one: "(?mnt p \<in> set standardMounts) = (p \<in> ?four)" if "p \<in> set ?ps" for p
  proof -
    have "\<not> prefix ''/proc'' p" "\<not> prefix ''/sys'' p" "\<not> prefix ''/dev'' p"
      using nopre [OF that] by blast+
    then have "p \<noteq> ''/proc/sys''" "p \<noteq> ''/proc/sysrq-trigger''" "p \<noteq> ''/proc/irq''"
      "p \<noteq> ''/proc/bus''" "p \<noteq> ''/sys/fs/cgroup''" "p \<noteq> ''/sys''" "p \<noteq> ''/dev''"
      by auto
    then have "(p \<in> set [''/proc/sys'', ''/proc/sysrq-trigger'', ''/proc/irq'', ''/proc/bus'',
        ''/sys/fs/cgroup'', ''/sys'', ''/dev'', ''.dockerenv'', ''/etc/hosts'', ''/etc/hostname'',
        ''/etc/resolv.conf'']) = (p \<in> ?four)"
      by (simp only: list.set insert_iff empty_iff simp_thms)
    then show ?thesis
      unfolding standardMounts_paths mem .
  qed
  have disj: "(set standardMounts \<inter> set (map ?mnt ?ps) = {}) = (set ?ps \<inter> ?four = {})"
  proof -
    have "(set standardMounts \<inter> set (map ?mnt ?ps) = {}) =
          (\<forall>p \<in> set ?ps. ?mnt p \<notin> set standardMounts)"
      by auto
    also have "\<dots> = (\<forall>p \<in> set ?ps. p \<notin> ?four)"
      using one by blast
    also have "\<dots> = (set ?ps \<inter> ?four = {})"
      by blast
    finally show ?thesis .
  qed
  show ?thesis
    unfolding out distinct_append d disj using distinct_standardMounts by simp
qed

text \<open>The amended claim at a bind mount \<open>/data\<close> together with the system mount \<open>/proc\<close>.\<close>

theorem BuildExternalMountMappings_distinct_iff_witness:
  "distinct (BuildExternalMountMappings
      [\<lparr>ContainerPath = ''/data'', HostPath = ''/tmp/d1'', MountMapping.Type = ''bind'', Options = '''',
         IsExternal = True, ReadOnly = False\<rparr>,
       \<lparr>ContainerPath = ''/proc'', HostPath = ''/proc'', MountMapping.Type = ''proc'', Options = '''',
         IsExternal = True, ReadOnly = False\<rparr>])"
  using BuildExternalMountMappings_distinct_iff [of
      "[\<lparr>ContainerPath = ''/data'', HostPath = ''/tmp/d1'', MountMapping.Type = ''bind'', Options = '''',
         IsExternal = True, ReadOnly = False\<rparr>,
       \<lparr>ContainerPath = ''/proc'', HostPath = ''/proc'', MountMapping.Type = ''proc'', Options = '''',
         IsExternal = True, ReadOnly = False\<rparr>]"]
  by simp

text \<open>
  Claim C6.  For every mapping list and skip list, \<open>buildExternalMountArgs\<close> returns the
  descriptors of exactly the external mappings whose container path is not in the skip
  list, in order, followed by the three fixed entries \<open>mnt:/proc\<close>, \<open>mnt:/dev\<close>, \<open>mnt:/sys\<close>,
  whatever the skip list contains.  No descriptor comes from a skipped external mapping:
  removing those mappings from the input leaves the result unchanged.
\<close>

theorem buildExternalMountArgs_skips_then_essentials:
  "buildExternalMountArgs mappings skipMounts =
     map (\<lambda>m. if HostPath m \<noteq> '''' then ''mnt['' @ ContainerPath m @ '']:'' @ HostPath m
                else ''mnt:'' @ ContainerPath m)
       (filter (\<lambda>m. IsExternal m \<and> ContainerPath m \<notin> set skipMounts) mappings)
     @ [''mnt:/proc'', ''mnt:/dev'', ''mnt:/sys'']
   \<and> buildExternalMountArgs
        (filter (\<lambda>m. \<not> (IsExternal m \<and> ContainerPath m \<in> set skipMounts)) mappings) skipMounts =
      buildExternalMountArgs mappings skipMounts"
  by (simp add: buildExternalMountArgs_def skipMap_loop_eq buildExternalMountArgs_loop_eq
        append_each_eq essentialMounts_def conj_commute cong: conj_cong)

text \<open>
  Claim C2 (each of the five flags is passed to the fallback subprocess if and only if
  the option is set) fails on the code.  With \<open>TcpEstablished\<close>, \<open>FileLocks\<close> and
  \<open>ManageCgroups\<close> false and \<open>Shell\<close> true, \<open>CheckpointProcessCmd\<close> still passes
  \<open>--tcp-established\<close>, \<open>--file-locks\<close> and \<open>--manage-cgroups\<close> and does not pass
  \<open>--shell-job\<close>, while the sibling \<open>BuildCRIUCommandArgs\<close> of the same file derives all
  five flags from the options.
\<close>

theorem CheckpointProcessCmd_args_ignore_options:
  "CheckpointProcessCmd_args 4242
     \<lparr>CheckpointOptions.WorkDir = ''/out/c1/cp'', CheckpointOptions.ImagesDir = ''/out/c1/cp/images'', CheckpointOptions.LogFile = ''/out/c1/cp/dump.log'',
      CheckpointOptions.LogLevel = 4, CheckpointOptions.External = [], CheckpointOptions.ManageCgroups = False, CheckpointOptions.TcpEstablished = False,
      CheckpointOptions.FileLocks = False, CheckpointOptions.LeaveRunning = False, CheckpointOptions.Shell = True, PreDump = False, CheckpointOptions.TrackMem = False\<rparr>
   = [''dump'', ''-t'', ''4242'', ''-D'', ''/out/c1/cp/images'', ''--log-file'', ''/out/c1/cp/dump.log'',
      ''-v4'', ''--tcp-established'', ''--file-locks'', ''--link-remap'', ''--force-irmap'',
      ''--manage-cgroups'', ''--enable-external-sharing'', ''--enable-external-masters'',
      ''--enable-fs'', ''hugetlbfs'', ''--enable-fs'', ''tracefs'',
      ''--skip-mnt'', ''/proc'', ''--skip-mnt'', ''/dev'', ''--skip-mnt'', ''/sys'', ''--skip-mnt'', ''/run'']
   \<and> BuildCRIUCommandArgs 4242
     \<lparr>CheckpointOptions.WorkDir = ''/out/c1/cp'', CheckpointOptions.ImagesDir = ''/out/c1/cp/images'', CheckpointOptions.LogFile = ''/out/c1/cp/dump.log'',
      CheckpointOptions.LogLevel = 4, CheckpointOptions.External = [], CheckpointOptions.ManageCgroups = False, CheckpointOptions.TcpEstablished = False,
      CheckpointOptions.FileLocks = False, CheckpointOptions.LeaveRunning = False, CheckpointOptions.Shell = True, PreDump = False, CheckpointOptions.TrackMem = False\<rparr>
   = [''criu'', ''dump'', ''-t'', ''4242'', ''-D'', ''/out/c1/cp/images'', ''--log-file'',
      ''/out/c1/cp/dump.log'', ''-v4'', ''--shell-job'']"
  by (simp add: CheckpointProcessCmd_args_def BuildCRIUCommandArgs_def Sprintf_d_def
        nat_digits.simps digit_char_def)



text \<open>
  Claim C7.  Take any run of \<open>CheckpointProcess\<close> in which the library call \<open>Dump\<close> was made
  and failed.  Then the dump attempts of that run are exactly two, in this order: that
  library call and one execution of the \<open>criu\<close> binary with the arguments of
  \<open>CheckpointProcessCmd\<close>; neither path is tried again.  If the binary succeeds the
  result is nil.  If it fails the result is an error whose message contains the
  library's error and the error of the command-line path (the failure of the process
  together with its output).
\<close>

theorem CheckpointProcess_fallback_once:
  assumes "CheckpointProcess E pid opts w = (r, w')"
    and "CriuDump criuOpts (Some libErr) \<in> set (new_events w w')"
  shows "\<exists>res.
     filter is_dump_attempt (new_events w w') =
       [CriuDump criuOpts (Some libErr),
        ExecCriu (CheckpointOptions.WorkDir opts) (CheckpointProcessCmd_args pid opts) res] \<and>
     (case fst res of
        None \<Rightarrow> r = Inr ()
      | Some cmdFailure \<Rightarrow>
          \<exists>msg. r = Inl (Err msg) \<and> sublist libErr msg \<and>
            sublist (''CRIU checkpoint failed: '' @ cmdFailure @ ''\<newline>Output: '' @ snd res) msg)"
proof -
  let ?new = "new_events w w'"
  let ?dir = "CheckpointOptions.WorkDir opts"
  let ?args = "CheckpointProcessCmd_args pid opts"
  from assms(2) have mem: "CriuDump criuOpts (Some libErr) \<in> set (filter is_dump_attempt ?new)"
    by simp
  from tracesD(2) [OF traces_CheckpointProcess assms(1)]
  consider (before) "filter is_dump_attempt ?new = []"
    | (lib) opt where "filter is_dump_attempt ?new = [CriuDump opt None]"
    | (fallback) opt e1 res where
        "filter is_dump_attempt ?new = [CriuDump opt (Some e1), ExecCriu ?dir ?args res]"
        "r = (case fst res of
                None \<Rightarrow> Inr ()
              | Some e2 \<Rightarrow>
                  Inl (Err (''both go-criu and command-line CRIU failed.\<newline>Library error: '' @ e1 @
                            ''\<newline>Command error: '' @
                            ''CRIU checkpoint failed: '' @ e2 @ ''\<newline>Output: '' @ snd res)))"
    by blast
  then show ?thesis
  proof cases
    case before
    with mem show ?thesis by simp
  next
    case lib
    with mem show ?thesis by simp
  next
    case fallback
    from mem fallback(1) have eq: "opt = criuOpts" "e1 = libErr" by auto
    show ?thesis
    proof (cases "fst res")
      case None
      with fallback eq show ?thesis by (intro exI [of _ res]) simp
    next
      case (Some e2)
      let ?cmd = "''CRIU checkpoint failed: '' @ e2 @ ''\<newline>Output: '' @ snd res"
      let ?msg = "''both go-criu and command-line CRIU failed.\<newline>Library error: '' @ libErr @
                  ''\<newline>Command error: '' @ ?cmd"
      have r: "r = Inl (Err ?msg)" using fallback(2) Some eq by simp
      have s1: "sublist libErr ?msg"
        by (rule sublist_appendI)
      have "?msg = (''both go-criu and command-line CRIU failed.\<newline>Library error: '' @ libErr @
                  ''\<newline>Command error: '') @ ?cmd @ []"
        by simp
      then have s2: "sublist ?cmd ?msg"
        unfolding sublist_def by blast
      from r s1 s2 fallback(1) eq Some show ?thesis
        by (intro exI [of _ res]) simp
    qed
  qed
qed


text \<open>Claim C7 in the concrete environment, where both paths fail.\<close>

theorem CheckpointProcess_fallback_once_witness:
  "\<exists>res.
     filter is_dump_attempt
       (new_events
          \<lparr>hostfs = \<lparr>fs = (\<lambda>p. Dir []), refuse = (\<lambda>p. None)\<rparr>, trace = []\<rparr>
          (snd (CheckpointProcess failing_env 4242
             \<lparr>CheckpointOptions.WorkDir = ''/out/c1/cp'', CheckpointOptions.ImagesDir = ''/out/c1/cp/images'',
              CheckpointOptions.LogFile = '''', CheckpointOptions.LogLevel = 4,
              CheckpointOptions.External = [], CheckpointOptions.ManageCgroups = False,
              CheckpointOptions.TcpEstablished = False, CheckpointOptions.FileLocks = False,
              CheckpointOptions.LeaveRunning = False, CheckpointOptions.Shell = False,
              PreDump = False, CheckpointOptions.TrackMem = False\<rparr>
             \<lparr>hostfs = \<lparr>fs = (\<lambda>p. Dir []), refuse = (\<lambda>p. None)\<rparr>, trace = []\<rparr>))) =
       [CriuDump
          (CriuOpts_zero
             \<lparr>Pid := Some 4242, CriuOpts.LogLevel := Some 4, CriuOpts.LogFile := Some '''',
              CriuOpts.ManageCgroups := Some False, CriuOpts.TcpEstablished := Some False,
              CriuOpts.FileLocks := Some False, CriuOpts.LeaveRunning := Some False,
              ShellJob := Some False, CriuOpts.External := [], ExtUnixSk := Some True,
              GhostLimit := Some 0, ManageCgroupsMode := Some CgMode_SOFT,
              WorkDirFd := Some ''/out/c1/cp'', ImagesDirFd := Some ''/out/c1/cp/images''\<rparr>)
          (Some ''operation failed (msg:Error (criu/cr-dump.c) errno:0)''),
        ExecCriu ''/out/c1/cp''
          (CheckpointProcessCmd_args 4242
             \<lparr>CheckpointOptions.WorkDir = ''/out/c1/cp'', CheckpointOptions.ImagesDir = ''/out/c1/cp/images'',
              CheckpointOptions.LogFile = '''', CheckpointOptions.LogLevel = 4,
              CheckpointOptions.External = [], CheckpointOptions.ManageCgroups = False,
              CheckpointOptions.TcpEstablished = False, CheckpointOptions.FileLocks = False,
              CheckpointOptions.LeaveRunning = False, CheckpointOptions.Shell = False,
              PreDump = False, CheckpointOptions.TrackMem = False\<rparr>)
          res]"
proof -
  let ?w = "\<lparr>hostfs = \<lparr>fs = (\<lambda>p. Dir []), refuse = (\<lambda>p. None)\<rparr>, trace = []\<rparr>"
  let ?opts = "\<lparr>CheckpointOptions.WorkDir = ''/out/c1/cp'', CheckpointOptions.ImagesDir = ''/out/c1/cp/images'',
              CheckpointOptions.LogFile = '''', CheckpointOptions.LogLevel = 4,
              CheckpointOptions.External = [], CheckpointOptions.ManageCgroups = False,
              CheckpointOptions.TcpEstablished = False, CheckpointOptions.FileLocks = False,
              CheckpointOptions.LeaveRunning = False, CheckpointOptions.Shell = False,
              PreDump = False, CheckpointOptions.TrackMem = False\<rparr>"
  let ?o = "CriuOpts_zero
             \<lparr>Pid := Some 4242, CriuOpts.LogLevel := Some 4, CriuOpts.LogFile := Some '''',
              CriuOpts.ManageCgroups := Some False, CriuOpts.TcpEstablished := Some False,
              CriuOpts.FileLocks := Some False, CriuOpts.LeaveRunning := Some False,
              ShellJob := Some False, CriuOpts.External := [], ExtUnixSk := Some True,
              GhostLimit := Some 0, ManageCgroupsMode := Some CgMode_SOFT,
              WorkDirFd := Some ''/out/c1/cp'', ImagesDirFd := Some ''/out/c1/cp/images''\<rparr>"
  obtain r w' where run: "CheckpointProcess failing_env 4242 ?opts ?w = (r, w')"
    by (cases "CheckpointProcess failing_env 4242 ?opts ?w")
  have i32: "int32 4242 = 4242" "int32 4 = 4"
    by (simp_all add: int32_def)
  have "CriuDump ?o (Some ''operation failed (msg:Error (criu/cr-dump.c) errno:0)'') \<in> set (trace w')"
    using run
    by (simp add: CheckpointProcess_def CheckpointProcessCmd_def logCRIUError_def prog_defs
        EnsureDir_def DirExists_def os_Stat_def os_Open_def failing_env_def i32 Let_def)
      (auto simp: CriuOpts_zero_def)
  then have "CriuDump ?o (Some ''operation failed (msg:Error (criu/cr-dump.c) errno:0)'')
      \<in> set (new_events ?w w')"
    by (simp add: new_events_def)
  from CheckpointProcess_fallback_once [OF run this] run show ?thesis
    by auto
qed

text \<open>
  Claim C4.  If the checkpoint directory lacks one of the four required artifacts (one of
  the three files is not found by \<open>utils.FileExists\<close>, or \<open>images\<close> is not a directory, or
  it has no listable entry), every run of \<open>Restore\<close> fails in the validation step: the
  result is the validation error wrapped by \<open>Restore\<close> (or the panic of \<open>utils.DirExists\<close>
  on a path that \<open>os.Stat\<close> cannot examine), the host is unchanged, and the only event
  of the run is the first log line.  In particular neither the runtime's create call
  nor the engine's restore call is ever made.
\<close>

theorem Restore_incomplete_checkpoint:
  assumes "Restore E config w = (r, w')"
    and "\<not> (FileExists (hostfs w) (filepath_Join (CheckpointDir config) ''container_metadata.json'') \<and>
            FileExists (hostfs w) (filepath_Join (CheckpointDir config) ''mount_mappings.json'') \<and>
            FileExists (hostfs w) (filepath_Join (CheckpointDir config) ''checkpoint_metadata.json'') \<and>
            DirExists (hostfs w) (filepath_Join (CheckpointDir config) ''images'') = Inr True \<and>
            (\<exists>files. ListFiles (hostfs w) (filepath_Join (CheckpointDir config) ''images'') = Inr files \<and>
                     files \<noteq> []))"
  shows "((\<exists>e. r = Inl (Err (''checkpoint validation failed: '' @ e))) \<or> (\<exists>p. r = Inl (Panic p))) \<and>
         hostfs w' = hostfs w \<and>
         new_events w w' =
           [Log InfoLevel (''Starting restore from checkpoint: '' @ CheckpointDir config)]"
proof -
  let ?w1 = "w\<lparr>trace := trace w @
      [Log InfoLevel (''Starting restore from checkpoint: '' @ CheckpointDir config)]\<rparr>"
  have h1: "hostfs ?w1 = hostfs w" by simp
  from ValidateCheckpoint_incomplete [of ?w1 "CheckpointDir config"] assms(2)
  consider (err) e where "ValidateCheckpoint (CheckpointDir config) ?w1 = (Inl (Err e), ?w1)"
    | (panic) p where "ValidateCheckpoint (CheckpointDir config) ?w1 = (Inl (Panic p), ?w1)"
    unfolding h1 by blast
  then show ?thesis
  proof cases
    case err
    then have "wrap ''checkpoint validation failed: '' (ValidateCheckpoint (CheckpointDir config)) ?w1 =
        (Inl (Err (''checkpoint validation failed: '' @ e)), ?w1)"
      by (simp add: wrap_def)
    then have "Restore E config w = (Inl (Err (''checkpoint validation failed: '' @ e)), ?w1)"
      unfolding Restore_def andThen_log by (rule andThen_failed)
    with assms(1) show ?thesis by (auto simp: new_events_def)
  next
    case panic
    then have "wrap ''checkpoint validation failed: '' (ValidateCheckpoint (CheckpointDir config)) ?w1 =
        (Inl (Panic p), ?w1)"
      by (simp add: wrap_def)
    then have "Restore E config w = (Inl (Panic p), ?w1)"
      unfolding Restore_def andThen_log by (rule andThen_failed)
    with assms(1) show ?thesis by (auto simp: new_events_def)
  qed
qed


text \<open>Claim C4 on an empty host, where nothing of the checkpoint exists.\<close>

theorem Restore_incomplete_checkpoint_witness:
  "new_events
     \<lparr>hostfs = \<lparr>fs = (\<lambda>p. Absent), refuse = (\<lambda>p. None)\<rparr>, trace = []\<rparr>
     (snd (Restore failing_env
        \<lparr>CheckpointDir = ''/out/c1/cp'', NewContainerName = ''c1-restored'',
         RestoreConfig.LogLevel = 4, RestoreConfig.ManageCgroups = False,
         RestoreConfig.TcpEstablished = False, RestoreConfig.RestoreSibling = False,
         RestoreConfig.Shell = True, ValidateEnv = True, AutoFixMounts = True, SkipMounts = []\<rparr>
        \<lparr>hostfs = \<lparr>fs = (\<lambda>p. Absent), refuse = (\<lambda>p. None)\<rparr>, trace = []\<rparr>)) =
   [Log InfoLevel ''Starting restore from checkpoint: /out/c1/cp'']"
proof -
  let ?w = "\<lparr>hostfs = \<lparr>fs = (\<lambda>p. Absent), refuse = (\<lambda>p. None)\<rparr>, trace = []\<rparr>"
  let ?cfg = "\<lparr>CheckpointDir = ''/out/c1/cp'', NewContainerName = ''c1-restored'',
         RestoreConfig.LogLevel = 4, RestoreConfig.ManageCgroups = False,
         RestoreConfig.TcpEstablished = False, RestoreConfig.RestoreSibling = False,
         RestoreConfig.Shell = True, ValidateEnv = True, AutoFixMounts = True, SkipMounts = []\<rparr>"
  obtain r w' where run: "Restore failing_env ?cfg ?w = (r, w')"
    by (cases "Restore failing_env ?cfg ?w")
  have "\<not> FileExists (hostfs ?w) (filepath_Join (CheckpointDir ?cfg) ''container_metadata.json'')"
    by (simp add: FileExists_def os_Stat_def)
  with Restore_incomplete_checkpoint [OF run] run show ?thesis
    by simp
qed

text \<open>
  Claim C8.  Take any run of \<open>Restore\<close> in which the engine's library restore was called
  and succeeded, and in which every answer of a successful inspect call is well formed
  (the sections that the program dereferences are present and the id has at least twelve
  characters).  Then \<open>Restore\<close> returns success, whatever the runtime answers to the
  re-query that follows the restore: the events after the engine call are the two log
  lines and the inspect call for the new name, and when that call fails or reports a
  container that is not running, the run ends with the warning
  \<open>Container not running, checking basic status...\<close> and the final success line.
\<close>

theorem Restore_verification_never_fails_restore:
  assumes "Restore E config w = (r, w')"
    and "CriuRestore criuOpts None \<in> set (new_events w w')"
    and "\<forall>name containerJSON.
           ContainerInspect name (Inr containerJSON) \<in> set (new_events w w') \<longrightarrow>
           inspect_wellformed containerJSON"
  shows "r = Inr () \<and>
         (\<exists>before res rest.
            new_events w w' = before @
              [CriuRestore criuOpts None,
               Log InfoLevel ''CRIU restore completed successfully'',
               Log InfoLevel ''Verifying restoration...'',
               ContainerInspect (NewContainerName config) res] @ rest \<and>
            ((\<exists>err. res = Inl err) \<or>
             (\<exists>containerJSON state. res = Inr containerJSON \<and> State containerJSON = Some state \<and>
                \<not> Running state) \<longrightarrow>
             rest = [Log WarnLevel ''Container not running, checking basic status...'',
                     Log InfoLevel (''Container restored successfully as: '' @
                                    NewContainerName config)]))"
proof -
  let ?new = "new_events w w'"
  let ?C = "\<lambda>ev. \<not> engine_restore_succeeded ev"
  have calm: "ev \<in> set evs \<Longrightarrow> list_all ?C evs \<Longrightarrow> \<not> engine_restore_succeeded ev" for ev evs
    by (simp add: list_all_iff)
  from assms(2) have "\<not> list_all ?C ?new"
    using calm [of "CriuRestore criuOpts None" ?new] by auto
  with tracesD(2) [OF traces_Restore assms(1)]
  obtain before opts res rest where
    new: "?new = before @
             [CriuRestore opts None,
              Log InfoLevel ''CRIU restore completed successfully'',
              Log InfoLevel ''Verifying restoration...'',
              ContainerInspect (NewContainerName config) res] @ rest"
    and before: "list_all ?C before" and rest: "list_all ?C rest"
    and failed: "(\<exists>err. res = Inl err) \<or>
            (\<exists>containerJSON state. res = Inr containerJSON \<and> State containerJSON = Some state \<and>
               \<not> Running state) \<longrightarrow>
            r = Inr () \<and>
            rest = [Log WarnLevel ''Container not running, checking basic status...'',
                    Log InfoLevel (''Container restored successfully as: '' @
                                   NewContainerName config)]"
    and answered: "\<forall>containerJSON. res = Inr containerJSON \<longrightarrow>
            inspect_wellformed containerJSON \<longrightarrow> r = Inr ()"
    by blast
  from assms(2) new before rest have opts: "opts = criuOpts"
    using calm [of "CriuRestore criuOpts None" before] calm [of "CriuRestore criuOpts None" rest]
    by auto
  have r: "r = Inr ()"
  proof (cases res)
    case (Inl err)
    with failed show ?thesis by blast
  next
    case (Inr containerJSON)
    with new have "ContainerInspect (NewContainerName config) (Inr containerJSON) \<in> set ?new"
      by simp
    with assms(3) have "inspect_wellformed containerJSON" by blast
    with answered Inr show ?thesis by blast
  qed
  from r new failed opts show ?thesis by blast
qed

text \<open>Claim C8 on the example restore, where the runtime does not know the new name at
  the re-query.\<close>

theorem Restore_verification_never_fails_restore_witness:
  "fst (Restore restoring_env example_RestoreConfig \<lparr>hostfs = example_checkpoint, trace = []\<rparr>) =
   Inr ()"
proof -
  let ?w = "\<lparr>hostfs = example_checkpoint, trace = []\<rparr>"
  let ?run = "Restore restoring_env example_RestoreConfig ?w"
  have run: "?run = (fst ?run, snd ?run)"
    by simp
  have "(\<exists>criuOpts. CriuRestore criuOpts None \<in> set (new_events ?w (snd ?run))) \<and>
        (\<forall>name containerJSON.
           ContainerInspect name (Inr containerJSON) \<in> set (new_events ?w (snd ?run)) \<longrightarrow>
           inspect_wellformed containerJSON)"
    by (simp add: new_events_def inspect_wellformed_def example_defs)
  then obtain criuOpts where
    "CriuRestore criuOpts None \<in> set (new_events ?w (snd ?run))"
    "\<forall>name containerJSON.
           ContainerInspect name (Inr containerJSON) \<in> set (new_events ?w (snd ?run)) \<longrightarrow>
           inspect_wellformed containerJSON"
    by blast
  from Restore_verification_never_fails_restore [OF run this] show ?thesis
    by blast
qed

text \<open>
  Claim C10 as stated (the device mappings of the original container are not carried
  into the restore container) does not hold.  \<open>CreateRestoreContainer\<close> copies the member
  \<open>Resources\<close> of the original host configuration as a whole, and in the SDK the device
  mappings are a member of that struct: for a container started with
  \<open>--device /dev/fuse\<close>, the host configuration handed to the create call has that
  device mapping.
\<close>

theorem CreateRestoreContainer_carries_devices:
  "map (\<lambda>hostConfig. Devices (HostConfig.Resources hostConfig))
     (created_hostConfigs
        (trace (snd (CreateRestoreContainer failing_env (Some example_state) ''c1-restored''
                       \<lparr>hostfs = example_checkpoint, trace = []\<rparr>)))) =
   [[\<lparr>PathOnHost = ''/dev/fuse'', PathInContainer = ''/dev/fuse'', CgroupPermissions = ''rwm''\<rparr>]]"
  by (simp add: CreateRestoreContainer_def prog_defs deref_def failing_env_def example_state_def
      ContainerState_zero_def example_HostConfig_def example_Config_def Let_def)

text \<open>
  Claim C10, amended.  For every original state whose \<open>Config\<close> and \<open>HostConfig\<close> are not
  nil, every run of \<open>CreateRestoreContainer\<close> calls the runtime's create exactly once, and
  the host configuration of that call is built from scratch: privileged, host modes for
  PID, IPC and network, \<open>seccomp=unconfined\<close>, the capabilities \<open>SYS_PTRACE\<close> and
  \<open>SYS_ADMIN\<close>, every other member at its zero value, except \<open>RestartPolicy\<close> and
  \<open>Resources\<close>, which are those of the original.  So the resource settings, the device
  mappings among them, are carried over, and nothing else of the original host
  configuration is: not its binds, port bindings, security options, dropped
  capabilities, runtime or read-only flag.
\<close>

theorem CreateRestoreContainer_hostConfig:
  assumes "CreateRestoreContainer E (Some original) newName w = (r, w')"
    and "ContainerState.Config original = Some originalConfig"
    and "ContainerState.HostConfig original = Some originalHostConfig"
  shows "created_hostConfigs (new_events w w') =
           [\<lparr>Binds = [],
             NetworkMode = ''host'',
             PortBindings = fmempty,
             HostConfig.RestartPolicy = HostConfig.RestartPolicy originalHostConfig,
             CapAdd = [''SYS_PTRACE'', ''SYS_ADMIN''],
             CapDrop = [],
             IpcMode = ''host'',
             PidMode = ''host'',
             Privileged = True,
             ReadonlyRootfs = False,
             SecurityOpt = [''seccomp=unconfined''],
             HostConfig.Runtime = '''',
             HostConfig.Resources = HostConfig.Resources originalHostConfig\<rparr>]"
  using assms
  by (auto simp: CreateRestoreContainer_def prog_defs deref_def slice_to_def Let_def
      new_events_def split: prod.splits sum.splits if_splits)

text \<open>The amended claim on the state of the container started with \<open>--device /dev/fuse\<close>.\<close>

theorem CreateRestoreContainer_hostConfig_witness:
  "created_hostConfigs
     (new_events \<lparr>hostfs = example_checkpoint, trace = []\<rparr>
        (snd (CreateRestoreContainer restoring_env (Some example_state) ''c1-restored''
                \<lparr>hostfs = example_checkpoint, trace = []\<rparr>))) =
   [\<lparr>Binds = [],
     NetworkMode = ''host'',
     PortBindings = fmempty,
     HostConfig.RestartPolicy = \<lparr>RestartPolicy.Name = ''always'', MaximumRetryCount = 0\<rparr>,
     CapAdd = [''SYS_PTRACE'', ''SYS_ADMIN''],
     CapDrop = [],
     IpcMode = ''host'',
     PidMode = ''host'',
     Privileged = True,
     ReadonlyRootfs = False,
     SecurityOpt = [''seccomp=unconfined''],
     HostConfig.Runtime = '''',
     HostConfig.Resources =
       \<lparr>CPUShares = 512, Memory = 268435456, CgroupParent = '''',
        Devices = [\<lparr>PathOnHost = ''/dev/fuse'', PathInContainer = ''/dev/fuse'',
                    CgroupPermissions = ''rwm''\<rparr>]\<rparr>\<rparr>]"
proof -
  let ?w = "\<lparr>hostfs = example_checkpoint, trace = []\<rparr>"
  let ?run = "CreateRestoreContainer restoring_env (Some example_state) ''c1-restored'' ?w"
  have run: "?run = (fst ?run, snd ?run)"
    by simp
  have c: "ContainerState.Config example_state = Some example_Config"
    by (simp add: example_state_def)
  have h: "ContainerState.HostConfig example_state =
      Some (example_HostConfig
                  \<lparr>HostConfig.Resources :=
                     \<lparr>CPUShares = 512, Memory = 268435456, CgroupParent = '''',
                      Devices = [\<lparr>PathOnHost = ''/dev/fuse'', PathInContainer = ''/dev/fuse'',
                                  CgroupPermissions = ''rwm''\<rparr>]\<rparr>\<rparr>)"
    by (simp add: example_state_def)
  from CreateRestoreContainer_hostConfig [OF run c h] show ?thesis
    by (simp add: example_HostConfig_def)
qed
end
